theory Spec2Isabelle
  imports Complex_Main "HOL-Library.Sublist"
begin

section \<open>Python values, errors and warnings\<close>

text \<open>
  The NEST backend of PyNN exchanges loosely typed values with the simulator engine:
  the engine's default-parameter dictionaries and the keyword arguments of
  \<^verbatim>\<open>setup\<close> hold numbers, strings, tuples, dictionaries and arrays. The values are
  modelled by one datatype, with the Python class of each constructor given by
  \<open>type_of\<close>. Floating-point payloads are carried as real numbers; no rounding is
  modelled. A dictionary is an association list in iteration order.
\<close>

datatype error =
    NESTError
  | TypeError
  | IndexError
  | KeyError
  | AttributeError
  | ValueError
  | FileNotFoundError
  | OtherError string

datatype pyval =
    VNone
  | VBool bool
  | VInt int
  | VFloat real
  | VStr string
  | VSequence "real list"
  | VNdarray "real list"
  | VTuple "pyval list"
  | VList "pyval list"
  | VDict "(string \<times> pyval) list"

datatype pytype =
    T_NoneType | T_bool | T_int | T_float | T_str | T_Sequence | T_ndarray
  | T_tuple | T_list | T_dict

fun type_of :: "pyval \<Rightarrow> pytype" where
  "type_of VNone = T_NoneType"
| "type_of (VBool b) = T_bool"
| "type_of (VInt i) = T_int"
| "type_of (VFloat x) = T_float"
| "type_of (VStr s) = T_str"
| "type_of (VSequence xs) = T_Sequence"
| "type_of (VNdarray xs) = T_ndarray"
| "type_of (VTuple vs) = T_tuple"
| "type_of (VList vs) = T_list"
| "type_of (VDict kvs) = T_dict"

text \<open>\<^verbatim>\<open>bool\<close> is a subclass of \<^verbatim>\<open>int\<close>; the other classes are unrelated.\<close>

definition issubclass :: "pytype \<Rightarrow> pytype \<Rightarrow> bool" where
  "issubclass a b = (a = b \<or> (a = T_bool \<and> b = T_int))"

definition isinstance :: "pyval \<Rightarrow> pytype list \<Rightarrow> bool" where
  "isinstance v ts = list_ex (issubclass (type_of v)) ts"

text \<open>
  \<^verbatim>\<open>name in container\<close> for a string \<open>name\<close>: membership in a tuple or list, key
  membership in a dictionary, the substring test on a string, never true in an array of
  numbers; a scalar, \<^verbatim>\<open>None\<close> and a \<^verbatim>\<open>Sequence\<close> (which defines neither
  \<^verbatim>\<open>__contains__\<close> nor \<^verbatim>\<open>__iter__\<close>) raise \<^verbatim>\<open>TypeError\<close>.
\<close>

fun py_in :: "string \<Rightarrow> pyval \<Rightarrow> error + bool" where
  "py_in name (VTuple vs) = Inr (VStr name \<in> set vs)"
| "py_in name (VList vs) = Inr (VStr name \<in> set vs)"
| "py_in name (VDict kvs) = Inr (name \<in> set (map fst kvs))"
| "py_in name (VStr s) = Inr (sublist name s)"
| "py_in name (VNdarray xs) = Inr False"
| "py_in name v = Inl TypeError"

text \<open>\<^verbatim>\<open>list(v)\<close>: the elements of an iterable, the keys of a dictionary.\<close>

fun py_list :: "pyval \<Rightarrow> error + pyval list" where
  "py_list (VTuple vs) = Inr vs"
| "py_list (VList vs) = Inr vs"
| "py_list (VDict kvs) = Inr (map (VStr \<circ> fst) kvs)"
| "py_list (VStr s) = Inr (map (\<lambda>c. VStr [c]) s)"
| "py_list (VNdarray xs) = Inr (map VFloat xs)"
| "py_list v = Inl TypeError"

text \<open>\<^verbatim>\<open>d.get(key, default)\<close> on a dictionary.\<close>

definition dict_get :: "(string \<times> pyval) list \<Rightarrow> string \<Rightarrow> pyval \<Rightarrow> pyval" where
  "dict_get d key dflt = (case map_of d key of Some v \<Rightarrow> v | None \<Rightarrow> dflt)"

text \<open>\<^verbatim>\<open>v[0]\<close>: the first element; a dictionary keyed by names has no key \<open>0\<close>.\<close>

fun py_first :: "pyval \<Rightarrow> error + pyval" where
  "py_first (VTuple vs) = (case vs of [] \<Rightarrow> Inl IndexError | x # xs \<Rightarrow> Inr x)"
| "py_first (VList vs) = (case vs of [] \<Rightarrow> Inl IndexError | x # xs \<Rightarrow> Inr x)"
| "py_first (VStr s) = (case s of [] \<Rightarrow> Inl IndexError | c # cs \<Rightarrow> Inr (VStr [c]))"
| "py_first (VNdarray xs) = (case xs of [] \<Rightarrow> Inl IndexError | x # ys \<Rightarrow> Inr (VFloat x))"
| "py_first (VDict kvs) = Inl KeyError"
| "py_first v = Inl TypeError"

text \<open>
  The truth value that \<^verbatim>\<open>v or 1\<close> tests. An array of more than one element has
  none (\<^verbatim>\<open>ValueError\<close>); a \<^verbatim>\<open>Sequence\<close> is a plain object and is true.
\<close>

fun truthy :: "pyval \<Rightarrow> error + bool" where
  "truthy VNone = Inr False"
| "truthy (VBool b) = Inr b"
| "truthy (VInt i) = Inr (i \<noteq> 0)"
| "truthy (VFloat x) = Inr (x \<noteq> 0)"
| "truthy (VStr s) = Inr (s \<noteq> [])"
| "truthy (VSequence xs) = Inr True"
| "truthy (VNdarray xs) =
     (case xs of [] \<Rightarrow> Inr False | [x] \<Rightarrow> Inr (x \<noteq> 0) | x # y # ys \<Rightarrow> Inl ValueError)"
| "truthy (VTuple vs) = Inr (vs \<noteq> [])"
| "truthy (VList vs) = Inr (vs \<noteq> [])"
| "truthy (VDict kvs) = Inr (kvs \<noteq> [])"

text \<open>
  The warnings of the two modules, by their message:
  \<^item> \<open>IgnoringParameter name type\<close>: "Ignoring parameter 'name' since PyNN does not
    support type";
  \<^item> \<open>ArgumentRenamed old new\<close>: "The setup argument 'old' is now 'new'";
  \<^item> \<open>RngSeedsUnavailable\<close>: "The setup argument 'rng_seeds' is no longer available.
    Taking the first value for the global seed."
\<close>

datatype warning =
    IgnoringParameter string pytype
  | ArgumentRenamed string string
  | RngSeedsUnavailable

section \<open>The engine interface\<close>

text \<open>
  The simulator engine is an external collaborator. The backend reads it through
  \<^verbatim>\<open>nest.GetDefaults(model)\<close>, which returns the model's default-parameter
  dictionary, and through \<^verbatim>\<open>nest.GetDefaults(model, key)\<close> for the keys
  \<^verbatim>\<open>recordables\<close> (a tuple of names) and \<^verbatim>\<open>element_type\<close>. Each query may fail; the
  engine reports its own failures as \<open>NESTError\<close>. The three queries are parameters of
  the model, so every theorem holds for every engine.
\<close>

record engine =
  GetDefaults :: "string \<Rightarrow> error + (string \<times> pyval) list"
  GetDefaults_recordables :: "string \<Rightarrow> error + string list"
  GetDefaults_element_type :: "string \<Rightarrow> error + pyval"

section \<open>Model reflection: \<^verbatim>\<open>pyNN/nest/cells.py\<close>\<close>

definition UNITS_MAP :: "string \<rightharpoonup> string" where
  "UNITS_MAP = map_of
     [(''spikes'', ''ms''),
      (''V_m'', ''mV''),
      (''I_syn_ex'', ''pA''),
      (''I_syn_in'', ''pA'')]"

definition valid_types :: "pytype list" where
  "valid_types = [T_int, T_float, T_Sequence, T_ndarray]"

definition ignore :: "string list" where
  "ignore =
     [''archiver_length'', ''available'', ''Ca'', ''capacity'', ''elementsize'',
      ''frozen'', ''instantiations'', ''local'', ''model'', ''needs_prelim_update'',
      ''recordables'', ''state'', ''t_spike'', ''tau_minus'', ''tau_minus_triplet'',
      ''thread'', ''vp'', ''receptor_types'', ''events'', ''global_id'',
      ''element_type'', ''type'', ''type_id'', ''has_connections'', ''n_synapses'',
      ''thread_local_id'', ''node_uses_wfr'', ''supports_precise_spikes'',
      ''synaptic_elements'', ''y_0'', ''y_1'', ''allow_offgrid_spikes'',
      ''shift_now_spikes'', ''post_trace'']"

text \<open>
  The accumulator of the loop of \<^verbatim>\<open>get_defaults\<close>: the two dictionaries it fills and
  the warnings it has emitted, oldest first.
\<close>

record defaults_acc =
  default_params :: "string \<rightharpoonup> pyval"
  default_initial_values :: "string \<rightharpoonup> pyval"
  warned :: "warning list"

definition empty_acc :: defaults_acc where
  "empty_acc = \<lparr>default_params = Map.empty, default_initial_values = Map.empty, warned = []\<rparr>"

text \<open>
  One iteration of \<^verbatim>\<open>for name, value in defaults.items()\<close>. The conversion
  \<^verbatim>\<open>conversion.make_pynn_compatible\<close> is defined outside the files at hand and is the
  parameter \<open>mk\<close>.
\<close>

definition defaults_step ::
  "(pyval \<Rightarrow> pyval) \<Rightarrow> pyval \<Rightarrow> string \<times> pyval \<Rightarrow> defaults_acc \<Rightarrow> error + defaults_acc" where
  "defaults_step mk variables item acc =
     (case item of (name, v) \<Rightarrow>
        (case py_in name variables of
           Inl e \<Rightarrow> Inl e
         | Inr True \<Rightarrow>
             Inr (acc\<lparr>default_initial_values := (default_initial_values acc)(name \<mapsto> v)\<rparr>)
         | Inr False \<Rightarrow>
             if name \<notin> set ignore then
               if isinstance v valid_types then
                 Inr (acc\<lparr>default_params := (default_params acc)(name \<mapsto> mk v)\<rparr>)
               else
                 Inr (acc\<lparr>warned := warned acc @ [IgnoringParameter name (type_of v)]\<rparr>)
             else Inr acc))"

fun defaults_loop ::
  "(pyval \<Rightarrow> pyval) \<Rightarrow> pyval \<Rightarrow> (string \<times> pyval) list \<Rightarrow> defaults_acc \<Rightarrow> error + defaults_acc" where
  "defaults_loop mk variables [] acc = Inr acc"
| "defaults_loop mk variables (item # items) acc =
     (case defaults_step mk variables item acc of
        Inl e \<Rightarrow> Inl e
      | Inr acc' \<Rightarrow> defaults_loop mk variables items acc')"

definition get_defaults :: "(pyval \<Rightarrow> pyval) \<Rightarrow> engine \<Rightarrow> string \<Rightarrow> error + defaults_acc" where
  "get_defaults mk eng model_name =
     (case GetDefaults eng model_name of
        Inl e \<Rightarrow> Inl e
      | Inr defaults \<Rightarrow>
          defaults_loop mk (dict_get defaults ''recordables'' (VList [])) defaults empty_acc)"

definition get_receptor_types :: "engine \<Rightarrow> string \<Rightarrow> error + pyval list" where
  "get_receptor_types eng model_name =
     (case GetDefaults eng model_name of
        Inl e \<Rightarrow> Inl e
      | Inr defaults \<Rightarrow>
          py_list (dict_get defaults ''receptor_types''
                     (VTuple [VStr ''excitatory'', VStr ''inhibitory''])))"

text \<open>
  \<^verbatim>\<open>get_recordables\<close> catches \<open>NESTError\<close> and nothing else: any other exception of the
  query propagates.
\<close>

definition get_recordables :: "engine \<Rightarrow> string \<Rightarrow> error + string list" where
  "get_recordables eng model_name =
     (case GetDefaults_recordables eng model_name of
        Inr names \<Rightarrow> Inr names
      | Inl NESTError \<Rightarrow> Inr []
      | Inl e \<Rightarrow> Inl e)"

text \<open>
  \<^verbatim>\<open>"g" in (s[0] for s in recordable)\<close>: the generator is consumed up to the first
  match, and \<^verbatim>\<open>s[0]\<close> on an empty name raises \<^verbatim>\<open>IndexError\<close>.
\<close>

fun g_in_first_chars :: "string list \<Rightarrow> error + bool" where
  "g_in_first_chars [] = Inr False"
| "g_in_first_chars (s # rest) =
     (case s of
        [] \<Rightarrow> Inl IndexError
      | c # cs \<Rightarrow> if c = CHR ''g'' then Inr True else g_in_first_chars rest)"

text \<open>\<^verbatim>\<open>dict(pairs)\<close>: a later pair with the same key replaces an earlier one.\<close>

definition dict_of_pairs :: "('k \<times> 'v) list \<Rightarrow> ('k \<rightharpoonup> 'v)" where
  "dict_of_pairs ps = foldl (\<lambda>m (k, v). m(k \<mapsto> v)) Map.empty ps"

definition unit_of :: "string \<Rightarrow> string" where
  "unit_of var = (case UNITS_MAP var of Some u \<Rightarrow> u | None \<Rightarrow> ''unknown'')"

text \<open>
  The attributes of the class that \<^verbatim>\<open>native_cell_type\<close> synthesises. The attribute
  \<^verbatim>\<open>default_initial_values\<close> is the field \<open>initial_values\<close>: the accumulator of
  \<^verbatim>\<open>get_defaults\<close> above already has the other name.
\<close>

record descriptor =
  nest_model :: string
  default_parameters :: "string \<rightharpoonup> pyval"
  initial_values :: "string \<rightharpoonup> pyval"
  receptor_types :: "pyval list"
  injectable :: bool
  recordable :: "string list"
  units :: "string \<rightharpoonup> string"
  standard_receptor_type :: bool
  nest_name :: "string \<rightharpoonup> string"
  conductance_based :: bool
  always_local :: bool
  uses_parrot :: bool

text \<open>
  \<^verbatim>\<open>native_cell_type\<close> returns the descriptor together with the warnings emitted
  while it was built. The model name is a string (the source asserts it). The four
  engine reads happen in the order of the source, and the first failure ends the call.
\<close>

definition native_cell_type ::
  "(pyval \<Rightarrow> pyval) \<Rightarrow> engine \<Rightarrow> string \<Rightarrow> error + descriptor \<times> warning list" where
  "native_cell_type mk eng model_name =
     (case get_defaults mk eng model_name of
        Inl e \<Rightarrow> Inl e
      | Inr acc \<Rightarrow>
     (case get_receptor_types eng model_name of
        Inl e \<Rightarrow> Inl e
      | Inr rts \<Rightarrow>
     (case get_recordables eng model_name of
        Inl e \<Rightarrow> Inl e
      | Inr reported \<Rightarrow>
     (case GetDefaults_element_type eng model_name of
        Inl e \<Rightarrow> Inl e
      | Inr element_type \<Rightarrow>
     (let rec = reported @ [''spikes''] in
      case g_in_first_chars rec of
        Inl e \<Rightarrow> Inl e
      | Inr cb \<Rightarrow>
          Inr (\<lparr>nest_model = model_name,
                default_parameters = default_params acc,
                initial_values = default_initial_values acc,
                receptor_types = rts,
                injectable = (default_initial_values acc ''V_m'' \<noteq> None),
                recordable = rec,
                units = dict_of_pairs (map (\<lambda>var. (var, unit_of var)) rec),
                standard_receptor_type = (rts = [VStr ''excitatory'', VStr ''inhibitory'']),
                nest_name = [''on_grid'' \<mapsto> model_name, ''off_grid'' \<mapsto> model_name],
                conductance_based = cb,
                always_local = (element_type = VStr ''stimulator''),
                uses_parrot = (element_type = VStr ''stimulator'')\<rparr>,
               warned acc))))))"

section \<open>Session control: \<^verbatim>\<open>pyNN/nest/__init__.py\<close>\<close>

text \<open>
  The session state is the object \<^verbatim>\<open>simulator.state\<close>. The attributes that this
  module assigns are fields; everything else the session touches (the engine's kernel,
  the file system) is the field \<open>world\<close>, of a type the model leaves open. A pending
  write is a triple of a population, the variables to write and a file name.
\<close>

record ('p, 'k) sim_state =
  threads :: pyval
  verbosity :: pyval
  spike_precision :: pyval
  recording_precision :: pyval
  num_threads :: pyval
  rng_seed :: pyval
  t_flush :: pyval
  dt :: pyval
  tempdirs :: "string list"
  write_on_end :: "('p \<times> pyval \<times> string) list"
  world :: 'k

text \<open>
  The functions this module calls and that are defined elsewhere are parameters:
  \<^verbatim>\<open>common.setup\<close> (argument validation; \<open>None\<close> when it returns),
  \<^verbatim>\<open>simulator.state.clear\<close>, \<^verbatim>\<open>simulator.state.set_delays\<close>,
  \<^verbatim>\<open>nest.SetDefaults\<close>, \<^verbatim>\<open>rank\<close>, \<^verbatim>\<open>recording.get_io\<close>,
  \<^verbatim>\<open>population.write_data\<close> and \<^verbatim>\<open>shutil.rmtree\<close>, with the constant
  \<^verbatim>\<open>DEFAULT_MAX_DELAY\<close>. Each may raise. Those that act on the engine or on the file
  system take the world and return the new one.
\<close>

record ('p, 'io, 'k) collaborators =
  DEFAULT_MAX_DELAY :: pyval
  common_setup :: "pyval \<Rightarrow> pyval \<Rightarrow> (string \<times> pyval) list \<Rightarrow> error option"
  state_clear :: "('p, 'k) sim_state \<Rightarrow> error + ('p, 'k) sim_state"
  set_delays :: "pyval \<Rightarrow> pyval \<Rightarrow> 'k \<Rightarrow> error + 'k"
  SetDefaults :: "string \<Rightarrow> (string \<times> pyval) list \<Rightarrow> 'k \<Rightarrow> error + 'k"
  rank :: "'k \<Rightarrow> int"
  get_io :: "string \<Rightarrow> 'k \<Rightarrow> error + 'io \<times> 'k"
  write_data :: "'p \<Rightarrow> 'io \<Rightarrow> pyval \<Rightarrow> 'k \<Rightarrow> error + 'k"
  rmtree :: "string \<Rightarrow> 'k \<Rightarrow> error + 'k"

subsection \<open>\<^verbatim>\<open>_discrepancy_due_to_rounding\<close>\<close>

text \<open>
  The engine's answer \<^verbatim>\<open>output_values\<close> is one number, or a sequence of numbers
  (an object with \<^verbatim>\<open>__len__\<close>).
\<close>

datatype output_values = Scalar real | Values "real list"

text \<open>
  \<^verbatim>\<open>parameters.keys().index(name)\<close>. The module is the backend for NEST 3, whose
  bindings run on Python 3 only; there the keys of a dictionary are a view object, which
  has no method \<^verbatim>\<open>index\<close>, so the attribute lookup raises before any position is
  computed. (Under Python 2 the keys were a list, and the call gave the position of the
  name in the dictionary's own key order.)
\<close>

definition keys_index :: "(string \<times> real) list \<Rightarrow> string \<Rightarrow> error + nat" where
  "keys_index parameters name = Inl AttributeError"

text \<open>
  The third argument is the value of \<^verbatim>\<open>get_time_step()\<close>, the session's time
  step.
\<close>

definition discrepancy_due_to_rounding ::
  "(string \<times> real) list \<Rightarrow> output_values \<Rightarrow> real \<Rightarrow> error + bool" where
  "discrepancy_due_to_rounding parameters output_values time_step =
     (case map_of parameters ''delay'' of
        None \<Rightarrow> Inr False
      | Some input_delay \<Rightarrow>
          (case output_values of
             Values vs \<Rightarrow>
               (case keys_index parameters ''delay'' of
                  Inl e \<Rightarrow> Inl e
                | Inr i \<Rightarrow>
                    if i < length vs then Inr (\<bar>input_delay - vs ! i\<bar> < time_step)
                    else Inl IndexError)
           | Scalar output_delay \<Rightarrow> Inr (\<bar>input_delay - output_delay\<bar> < time_step)))"

subsection \<open>\<^verbatim>\<open>setup\<close>\<close>

text \<open>
  The loop over \<^verbatim>\<open>("threads", "verbosity", "spike_precision",
  "recording_precision")\<close>: each option that is given is stored in the attribute of
  its name.
\<close>

definition set_given_options ::
  "(string \<times> pyval) list \<Rightarrow> ('p, 'k) sim_state \<Rightarrow> ('p, 'k) sim_state" where
  "set_given_options extra_params st =
     (let st1 = (case map_of extra_params ''threads'' of
                   Some v \<Rightarrow> st\<lparr>threads := v\<rparr> | None \<Rightarrow> st);
          st2 = (case map_of extra_params ''verbosity'' of
                   Some v \<Rightarrow> st1\<lparr>verbosity := v\<rparr> | None \<Rightarrow> st1);
          st3 = (case map_of extra_params ''spike_precision'' of
                   Some v \<Rightarrow> st2\<lparr>spike_precision := v\<rparr> | None \<Rightarrow> st2)
      in (case map_of extra_params ''recording_precision'' of
            Some v \<Rightarrow> st3\<lparr>recording_precision := v\<rparr> | None \<Rightarrow> st3))"

text \<open>\<^verbatim>\<open>extra_params.get('threads') or 1\<close>.\<close>

definition threads_or_1 :: "(string \<times> pyval) list \<Rightarrow> error + pyval" where
  "threads_or_1 extra_params =
     (let v = dict_get extra_params ''threads'' VNone in
      case truthy v of
        Inl e \<Rightarrow> Inl e
      | Inr b \<Rightarrow> Inr (if b then v else VInt 1))"

text \<open>
  The block under \<^verbatim>\<open># set kernel RNG seeds\<close>: three \<^verbatim>\<open>if\<close> statements in a row,
  the last of them with the \<^verbatim>\<open>else\<close> branch. The state is paired with the warnings
  emitted so far.
\<close>

definition set_kernel_rng_seeds ::
  "(string \<times> pyval) list \<Rightarrow> ('p, 'k) sim_state \<Rightarrow> error + ('p, 'k) sim_state \<times> warning list" where
  "set_kernel_rng_seeds extra_params st =
     (case threads_or_1 extra_params of
        Inl e \<Rightarrow> Inl e
      | Inr n \<Rightarrow>
     (let st1 = st\<lparr>num_threads := n\<rparr>;
          (st2, ws2) =
            (case map_of extra_params ''grng_seed'' of
               Some v \<Rightarrow> (st1\<lparr>rng_seed := v\<rparr>, [ArgumentRenamed ''grng_seed'' ''rng_seed''])
             | None \<Rightarrow> (st1, []))
      in
      case (case map_of extra_params ''rng_seeds'' of
              Some v \<Rightarrow>
                (case py_first v of
                   Inl e \<Rightarrow> Inl e
                 | Inr seed \<Rightarrow> Inr (st2\<lparr>rng_seed := seed\<rparr>, ws2 @ [RngSeedsUnavailable]))
            | None \<Rightarrow> Inr (st2, ws2)) of
        Inl e \<Rightarrow> Inl e
      | Inr (st3, ws3) \<Rightarrow>
          (case map_of extra_params ''rng_seeds_seed'' of
             Some v \<Rightarrow>
               Inr (st3\<lparr>rng_seed := v\<rparr>, ws3 @ [ArgumentRenamed ''rng_seeds_seed'' ''rng_seed''])
           | None \<Rightarrow>
               Inr (st3\<lparr>rng_seed := dict_get extra_params ''rng_seed'' (VInt 42)\<rparr>, ws3))))"

text \<open>
  \<^verbatim>\<open>setup\<close> (named \<open>setup_session\<close> here) returns the rank of the process, the
  configured state and the warnings it emitted. The keyword arguments
  \<^verbatim>\<open>**extra_params\<close> are an association list. The attributes of the session are
  plain fields: what their setters do in the engine is outside the files at hand.
\<close>

definition setup_session ::
  "('p, 'io, 'k) collaborators \<Rightarrow> pyval \<Rightarrow> pyval \<Rightarrow> (string \<times> pyval) list \<Rightarrow>
   ('p, 'k) sim_state \<Rightarrow> error + int \<times> ('p, 'k) sim_state \<times> warning list" where
  "setup_session ctl timestep min_delay extra_params st =
     (let max_delay = dict_get extra_params ''max_delay'' (DEFAULT_MAX_DELAY ctl) in
      case common_setup ctl timestep min_delay extra_params of
        Some e \<Rightarrow> Inl e
      | None \<Rightarrow>
     (case state_clear ctl st of
        Inl e \<Rightarrow> Inl e
      | Inr st1 \<Rightarrow>
     (case set_kernel_rng_seeds extra_params (set_given_options extra_params st1) of
        Inl e \<Rightarrow> Inl e
      | Inr (st2, ws) \<Rightarrow>
     (let st3 = (case map_of extra_params ''t_flush'' of
                   Some v \<Rightarrow> st2\<lparr>t_flush := v\<rparr> | None \<Rightarrow> st2);
          st4 = st3\<lparr>dt := timestep\<rparr>
      in
      case set_delays ctl min_delay max_delay (world st4) of
        Inl e \<Rightarrow> Inl e
      | Inr w1 \<Rightarrow>
     (case SetDefaults ctl ''spike_generator'' [(''precise_times'', VBool True)] w1 of
        Inl e \<Rightarrow> Inl e
      | Inr w2 \<Rightarrow> Inr (rank ctl w2, st4\<lparr>world := w2\<rparr>, ws))))))"

subsection \<open>\<^verbatim>\<open>end\<close>\<close>

text \<open>
  The calls \<^verbatim>\<open>end\<close> completes are recorded as events, oldest first, so that the
  writes and removals it performed can be counted.
\<close>

datatype 'p event = Wrote 'p pyval string | Removed string

text \<open>
  The first loop: \<^verbatim>\<open>io = recording.get_io(filename)\<close>, then
  \<^verbatim>\<open>population.write_data(io, variables)\<close>. An exception leaves the loop; the result
  is the exception (if any), the world and the events. The \<^verbatim>\<open>logger.debug\<close> line has
  no effect on the session.
\<close>

fun write_pending ::
  "('p, 'io, 'k) collaborators \<Rightarrow> ('p \<times> pyval \<times> string) list \<Rightarrow> 'k \<Rightarrow> 'p event list \<Rightarrow>
   error option \<times> 'k \<times> 'p event list" where
  "write_pending ctl [] w evs = (None, w, evs)"
| "write_pending ctl ((population, variables, filename) # rest) w evs =
     (case get_io ctl filename w of
        Inl e \<Rightarrow> (Some e, w, evs)
      | Inr (io, w1) \<Rightarrow>
          (case write_data ctl population io variables w1 of
             Inl e \<Rightarrow> (Some e, w1, evs)
           | Inr w2 \<Rightarrow> write_pending ctl rest w2 (evs @ [Wrote population variables filename])))"

text \<open>The second loop: \<^verbatim>\<open>shutil.rmtree(tempdir)\<close> for each temporary directory.\<close>

fun remove_tempdirs ::
  "('p, 'io, 'k) collaborators \<Rightarrow> string list \<Rightarrow> 'k \<Rightarrow> 'p event list \<Rightarrow>
   error option \<times> 'k \<times> 'p event list" where
  "remove_tempdirs ctl [] w evs = (None, w, evs)"
| "remove_tempdirs ctl (tempdir # rest) w evs =
     (case rmtree ctl tempdir w of
        Inl e \<Rightarrow> (Some e, w, evs)
      | Inr w1 \<Rightarrow> remove_tempdirs ctl rest w1 (evs @ [Removed tempdir]))"

text \<open>
  \<^verbatim>\<open>end\<close> (named \<open>end_session\<close> here). The two lists are reset only by the last two
  statements, which an exception in either loop skips. The result is the exception (if
  any), the session state left behind and the events.
\<close>

definition end_session ::
  "('p, 'io, 'k) collaborators \<Rightarrow> ('p, 'k) sim_state \<Rightarrow>
   error option \<times> ('p, 'k) sim_state \<times> 'p event list" where
  "end_session ctl st =
     (case write_pending ctl (write_on_end st) (world st) [] of
        (Some e, w, evs) \<Rightarrow> (Some e, st\<lparr>world := w\<rparr>, evs)
      | (None, w, evs) \<Rightarrow>
          (case remove_tempdirs ctl (tempdirs st) w evs of
             (Some e, w1, evs1) \<Rightarrow> (Some e, st\<lparr>world := w1\<rparr>, evs1)
           | (None, w1, evs1) \<Rightarrow>
               (None, st\<lparr>tempdirs := [], write_on_end := [], world := w1\<rparr>, evs1)))"

section \<open>A sample engine and a sample session\<close>

text \<open>
  Concrete inputs on which the theorems below are exercised. The engine knows two
  models. \<^verbatim>\<open>iaf_psc_alpha\<close> is a neuron with two recordables, one of them holding a
  tuple. \<^verbatim>\<open>poisson_generator\<close> is a stimulator: it has a string-valued parameter and no
  \<^verbatim>\<open>recordables\<close> entry, so the query for its recordables fails in the engine.
\<close>

definition iaf_psc_alpha_defaults :: "(string \<times> pyval) list" where
  "iaf_psc_alpha_defaults =
     [(''model'', VStr ''iaf_psc_alpha''),
      (''element_type'', VStr ''neuron''),
      (''recordables'', VTuple [VStr ''V_m'', VStr ''w_vec'']),
      (''V_m'', VFloat (- 70)),
      (''w_vec'', VTuple [VFloat 1, VFloat 2]),
      (''tau_m'', VFloat 10),
      (''frozen'', VBool False),
      (''refractory_input'', VBool False)]"

definition poisson_generator_defaults :: "(string \<times> pyval) list" where
  "poisson_generator_defaults =
     [(''model'', VStr ''poisson_generator''),
      (''element_type'', VStr ''stimulator''),
      (''rate'', VFloat 0),
      (''label'', VStr [])]"

definition sample_engine :: engine where
  "sample_engine =
     \<lparr>GetDefaults = (\<lambda>model.
        if model = ''iaf_psc_alpha'' then Inr iaf_psc_alpha_defaults
        else if model = ''poisson_generator'' then Inr poisson_generator_defaults
        else Inl NESTError),
      GetDefaults_recordables = (\<lambda>model.
        if model = ''iaf_psc_alpha'' then Inr [''V_m'', ''w_vec''] else Inl NESTError),
      GetDefaults_element_type = (\<lambda>model.
        if model = ''iaf_psc_alpha'' then Inr (VStr ''neuron'')
        else if model = ''poisson_generator'' then Inr (VStr ''stimulator'')
        else Inl NESTError)\<rparr>"

definition iaf_psc_alpha_descriptor :: descriptor where
  "iaf_psc_alpha_descriptor =
     \<lparr>nest_model = ''iaf_psc_alpha'',
      default_parameters = [''tau_m'' \<mapsto> VFloat 10, ''refractory_input'' \<mapsto> VBool False],
      initial_values = [''V_m'' \<mapsto> VFloat (- 70), ''w_vec'' \<mapsto> VTuple [VFloat 1, VFloat 2]],
      receptor_types = [VStr ''excitatory'', VStr ''inhibitory''],
      injectable = True,
      recordable = [''V_m'', ''w_vec'', ''spikes''],
      units = [''V_m'' \<mapsto> ''mV'', ''w_vec'' \<mapsto> ''unknown'', ''spikes'' \<mapsto> ''ms''],
      standard_receptor_type = True,
      nest_name = [''on_grid'' \<mapsto> ''iaf_psc_alpha'', ''off_grid'' \<mapsto> ''iaf_psc_alpha''],
      conductance_based = False,
      always_local = False,
      uses_parrot = False\<rparr>"

definition poisson_generator_descriptor :: descriptor where
  "poisson_generator_descriptor =
     \<lparr>nest_model = ''poisson_generator'',
      default_parameters = [''rate'' \<mapsto> VFloat 0],
      initial_values = Map.empty,
      receptor_types = [VStr ''excitatory'', VStr ''inhibitory''],
      injectable = False,
      recordable = [''spikes''],
      units = [''spikes'' \<mapsto> ''ms''],
      standard_receptor_type = True,
      nest_name = [''on_grid'' \<mapsto> ''poisson_generator'', ''off_grid'' \<mapsto> ''poisson_generator''],
      conductance_based = False,
      always_local = True,
      uses_parrot = True\<rparr>"

text \<open>
  Collaborators that always succeed, except that removing a directory fails when the
  directory does not exist, as \<^verbatim>\<open>shutil.rmtree\<close> does. The world is the list of the
  directories that exist.
\<close>

definition plain_collaborators :: "(string, string, string list) collaborators" where
  "plain_collaborators =
     \<lparr>DEFAULT_MAX_DELAY = VFloat 10,
      common_setup = (\<lambda>timestep min_delay extra_params. None),
      state_clear = (\<lambda>st. Inr st),
      set_delays = (\<lambda>min_delay max_delay w. Inr w),
      SetDefaults = (\<lambda>model params w. Inr w),
      rank = (\<lambda>w. 0),
      get_io = (\<lambda>filename w. Inr (filename, w)),
      write_data = (\<lambda>population io variables w. Inr w),
      rmtree = (\<lambda>tempdir w. if tempdir \<in> set w then Inr (removeAll tempdir w)
                              else Inl FileNotFoundError)\<rparr>"

definition fresh_state :: "(string, string list) sim_state" where
  "fresh_state =
     \<lparr>threads = VInt 1, verbosity = VStr ''warning'', spike_precision = VStr ''off_grid'',
      recording_precision = VInt 3, num_threads = VInt 1, rng_seed = VInt 0,
      t_flush = VInt (- 1), dt = VFloat (1 / 10), tempdirs = [], write_on_end = [],
      world = []\<rparr>"

definition recording_state :: "(string, string list) sim_state" where
  "recording_state =
     fresh_state\<lparr>tempdirs := [''/tmp/tmpa1''],
                 write_on_end := [(''p1'', VList [VStr ''V_m''], ''Vm.pkl''),
                                  (''p2'', VStr ''spikes'', ''spikes.h5'')],
                 world := [''/tmp/tmpa1'']\<rparr>"

definition stale_state :: "(string, string list) sim_state" where
  "stale_state = recording_state\<lparr>world := []\<rparr>"

text \<open>
  Collaborators whose output handler refuses the file \<^verbatim>\<open>Vm.txt\<close> and whose write
  fails for the population \<^verbatim>\<open>p0\<close>, and the sessions that meet them first.
\<close>

definition strict_collaborators :: "(string, string, string list) collaborators" where
  "strict_collaborators =
     plain_collaborators
       \<lparr>get_io := (\<lambda>filename w.
          if filename = ''Vm.txt'' then Inl (OtherError ''IOError'') else Inr (filename, w)),
        write_data := (\<lambda>population io variables w.
          if population = ''p0'' then Inl (OtherError ''NothingToWriteError'') else Inr w)\<rparr>"

definition text_file_state :: "(string, string list) sim_state" where
  "text_file_state =
     recording_state\<lparr>write_on_end := [(''p1'', VList [VStr ''V_m''], ''Vm.txt''),
                                      (''p2'', VStr ''spikes'', ''spikes.h5'')]\<rparr>"

definition empty_population_state :: "(string, string list) sim_state" where
  "empty_population_state =
     recording_state\<lparr>write_on_end := [(''p0'', VStr ''spikes'', ''spikes.h5'')]\<rparr>"

section \<open>Properties of model reflection\<close>

subsection \<open>The loop of \<^verbatim>\<open>get_defaults\<close>\<close>

lemma defaults_step_params_ignored:
  "defaults_step mk vars item acc = Inr acc' \<Longrightarrow> n \<in> set ignore \<Longrightarrow>
   default_params acc' n = default_params acc n"
  by (auto simp: defaults_step_def split: prod.splits sum.splits bool.splits if_splits)

lemma defaults_loop_params_ignored:
  "defaults_loop mk vars items acc = Inr acc' \<Longrightarrow> n \<in> set ignore \<Longrightarrow>
   default_params acc' n = default_params acc n"
proof (induction items arbitrary: acc)
  case Nil
  then show ?case by simp
next
  case (Cons item items)
  then obtain acc1 where s: "defaults_step mk vars item acc = Inr acc1"
    and l: "defaults_loop mk vars items acc1 = Inr acc'"
    by (auto split: sum.splits)
  from Cons.IH [OF l Cons.prems(2)] defaults_step_params_ignored [OF s Cons.prems(2)]
  show ?case by simp
qed

lemma defaults_step_params_origin:
  "defaults_step mk vars item acc = Inr acc' \<Longrightarrow> default_params acc' n = Some v \<Longrightarrow>
   default_params acc n = Some v \<or>
   (\<exists>v0. item = (n, v0) \<and> py_in n vars = Inr False \<and> n \<notin> set ignore \<and>
      isinstance v0 valid_types \<and> v = mk v0)"
  by (auto simp: defaults_step_def split: prod.splits sum.splits bool.splits if_splits)

lemma defaults_loop_params_origin:
  "defaults_loop mk vars items acc = Inr acc' \<Longrightarrow> default_params acc' n = Some v \<Longrightarrow>
   default_params acc n = Some v \<or>
   (\<exists>v0. (n, v0) \<in> set items \<and> py_in n vars = Inr False \<and> n \<notin> set ignore \<and>
      isinstance v0 valid_types \<and> v = mk v0)"
proof (induction items arbitrary: acc)
  case Nil
  then show ?case by simp
next
  case (Cons item items)
  then obtain acc1 where s: "defaults_step mk vars item acc = Inr acc1"
    and l: "defaults_loop mk vars items acc1 = Inr acc'"
    by (auto split: sum.splits)
  from Cons.IH [OF l Cons.prems(2)] show ?case
  proof
    assume "default_params acc1 n = Some v"
    from defaults_step_params_origin [OF s this] show ?thesis by auto
  next
    assume "\<exists>v0. (n, v0) \<in> set items \<and> py_in n vars = Inr False \<and> n \<notin> set ignore \<and>
      isinstance v0 valid_types \<and> v = mk v0"
    then show ?thesis by auto
  qed
qed

lemma defaults_step_warned:
  "defaults_step mk vars item acc = Inr acc' \<Longrightarrow>
   warned acc' = warned acc @
     map (\<lambda>(n, v). IgnoringParameter n (type_of v))
       (filter (\<lambda>(n, v). py_in n vars = Inr False \<and> n \<notin> set ignore \<and>
                  \<not> isinstance v valid_types) [item])"
  by (auto simp: defaults_step_def split: prod.splits sum.splits bool.splits if_splits)

lemma defaults_loop_warned:
  "defaults_loop mk vars items acc = Inr acc' \<Longrightarrow>
   warned acc' = warned acc @
     map (\<lambda>(n, v). IgnoringParameter n (type_of v))
       (filter (\<lambda>(n, v). py_in n vars = Inr False \<and> n \<notin> set ignore \<and>
                  \<not> isinstance v valid_types) items)"
proof (induction items arbitrary: acc)
  case Nil
  then show ?case by simp
next
  case (Cons item items)
  then obtain acc1 where s: "defaults_step mk vars item acc = Inr acc1"
    and l: "defaults_loop mk vars items acc1 = Inr acc'"
    by (auto split: sum.splits)
  from Cons.IH [OF l] defaults_step_warned [OF s] show ?case by simp
qed

lemma defaults_step_initial:
  "defaults_step mk vars item acc = Inr acc' \<Longrightarrow>
   default_initial_values acc' n =
     (if fst item = n \<and> py_in n vars = Inr True then Some (snd item)
      else default_initial_values acc n)"
  by (auto simp: defaults_step_def split: prod.splits sum.splits bool.splits if_splits)

lemma defaults_loop_initial_other:
  "defaults_loop mk vars items acc = Inr acc' \<Longrightarrow> n \<notin> fst ` set items \<Longrightarrow>
   default_initial_values acc' n = default_initial_values acc n"
proof (induction items arbitrary: acc)
  case Nil
  then show ?case by simp
next
  case (Cons item items)
  then obtain acc1 where s: "defaults_step mk vars item acc = Inr acc1"
    and l: "defaults_loop mk vars items acc1 = Inr acc'"
    by (auto split: sum.splits)
  from Cons.prems(2) have "n \<notin> fst ` set items" "fst item \<noteq> n" by auto
  with Cons.IH [OF l] defaults_step_initial [OF s, of n] show ?case by simp
qed

lemma defaults_loop_initial_kept:
  "defaults_loop mk vars items acc = Inr acc' \<Longrightarrow> distinct (map fst items) \<Longrightarrow>
   (n, v0) \<in> set items \<Longrightarrow> py_in n vars = Inr True \<Longrightarrow>
   default_initial_values acc' n = Some v0"
proof (induction items arbitrary: acc)
  case Nil
  then show ?case by simp
next
  case (Cons item items)
  then obtain acc1 where s: "defaults_step mk vars item acc = Inr acc1"
    and l: "defaults_loop mk vars items acc1 = Inr acc'"
    by (auto split: sum.splits)
  show ?case
  proof (cases "item = (n, v0)")
    case True
    with Cons.prems(2) have "n \<notin> fst ` set items" by auto
    from defaults_loop_initial_other [OF l this] defaults_step_initial [OF s, of n] True
      Cons.prems(4)
    show ?thesis by simp
  next
    case False
    with Cons.prems have "(n, v0) \<in> set items" "distinct (map fst items)" by auto
    from Cons.IH [OF l this(2) this(1) Cons.prems(4)] show ?thesis .
  qed
qed

lemma defaults_loop_initial_origin:
  "defaults_loop mk vars items acc = Inr acc' \<Longrightarrow> default_initial_values acc' n = Some v \<Longrightarrow>
   default_initial_values acc n = Some v \<or> ((n, v) \<in> set items \<and> py_in n vars = Inr True)"
proof (induction items arbitrary: acc)
  case Nil
  then show ?case by simp
next
  case (Cons item items)
  then obtain acc1 where s: "defaults_step mk vars item acc = Inr acc1"
    and l: "defaults_loop mk vars items acc1 = Inr acc'"
    by (auto split: sum.splits)
  from Cons.IH [OF l Cons.prems(2)] defaults_step_initial [OF s, of n]
  show ?case by (cases item) (auto split: if_splits)
qed

subsection \<open>The fields of a descriptor\<close>

lemma dict_of_pairs_snoc:
  "dict_of_pairs (ps @ [(k, v)]) = (dict_of_pairs ps)(k \<mapsto> v)"
  by (simp add: dict_of_pairs_def)

lemma dict_of_pairs_lookup:
  "dict_of_pairs (map (\<lambda>var. (var, f var)) xs) n = (if n \<in> set xs then Some (f n) else None)"
proof (induction xs rule: rev_induct)
  case Nil
  then show ?case by (simp add: dict_of_pairs_def)
next
  case (snoc x xs)
  then show ?case by (simp add: dict_of_pairs_snoc)
qed

lemma native_cell_type_fields:
  assumes "native_cell_type mk eng model_name = Inr (d, ws)"
  obtains acc reported element_type where
    "get_defaults mk eng model_name = Inr acc"
    "get_recordables eng model_name = Inr reported"
    "GetDefaults_element_type eng model_name = Inr element_type"
    "default_parameters d = default_params acc"
    "initial_values d = default_initial_values acc"
    "ws = warned acc"
    "recordable d = reported @ [''spikes'']"
    "units d = dict_of_pairs (map (\<lambda>var. (var, unit_of var)) (recordable d))"
    "always_local d = (element_type = VStr ''stimulator'')"
    "uses_parrot d = (element_type = VStr ''stimulator'')"
  using assms
  by (auto simp: native_cell_type_def Let_def simp del: map_append split: sum.splits)

subsection \<open>The sample engine, evaluated\<close>

lemma sample_engine_queries:
  "GetDefaults sample_engine ''iaf_psc_alpha'' = Inr iaf_psc_alpha_defaults"
  "GetDefaults sample_engine ''poisson_generator'' = Inr poisson_generator_defaults"
  "GetDefaults_recordables sample_engine ''iaf_psc_alpha'' = Inr [''V_m'', ''w_vec'']"
  "GetDefaults_recordables sample_engine ''poisson_generator'' = Inl NESTError"
  "GetDefaults_element_type sample_engine ''iaf_psc_alpha'' = Inr (VStr ''neuron'')"
  "GetDefaults_element_type sample_engine ''poisson_generator'' = Inr (VStr ''stimulator'')"
  by (simp_all add: sample_engine_def)

lemma sample_names_ignored:
  "''model'' \<in> set ignore" "''element_type'' \<in> set ignore" "''recordables'' \<in> set ignore"
  "''frozen'' \<in> set ignore"
  "''V_m'' \<notin> set ignore" "''w_vec'' \<notin> set ignore" "''tau_m'' \<notin> set ignore"
  "''refractory_input'' \<notin> set ignore" "''rate'' \<notin> set ignore" "''label'' \<notin> set ignore"
  by (simp_all add: ignore_def)

lemma sample_get_defaults_iaf:
  "get_defaults id sample_engine ''iaf_psc_alpha'' =
     Inr \<lparr>default_params = [''tau_m'' \<mapsto> VFloat 10, ''refractory_input'' \<mapsto> VBool False],
          default_initial_values =
            [''V_m'' \<mapsto> VFloat (- 70), ''w_vec'' \<mapsto> VTuple [VFloat 1, VFloat 2]],
          warned = []\<rparr>"
  by (simp add: get_defaults_def sample_engine_queries iaf_psc_alpha_defaults_def dict_get_def
      defaults_step_def empty_acc_def sample_names_ignored isinstance_def issubclass_def
      valid_types_def)

lemma sample_get_defaults_poisson:
  "get_defaults id sample_engine ''poisson_generator'' =
     Inr \<lparr>default_params = [''rate'' \<mapsto> VFloat 0],
          default_initial_values = Map.empty,
          warned = [IgnoringParameter ''label'' T_str]\<rparr>"
  by (simp add: get_defaults_def sample_engine_queries poisson_generator_defaults_def
      dict_get_def defaults_step_def empty_acc_def sample_names_ignored isinstance_def
      issubclass_def valid_types_def)

lemma sample_receptor_types:
  "get_receptor_types sample_engine ''iaf_psc_alpha'' =
     Inr [VStr ''excitatory'', VStr ''inhibitory'']"
  "get_receptor_types sample_engine ''poisson_generator'' =
     Inr [VStr ''excitatory'', VStr ''inhibitory'']"
  by (simp_all add: get_receptor_types_def sample_engine_queries iaf_psc_alpha_defaults_def
      poisson_generator_defaults_def dict_get_def)

lemma sample_recordables:
  "get_recordables sample_engine ''iaf_psc_alpha'' = Inr [''V_m'', ''w_vec'']"
  "get_recordables sample_engine ''poisson_generator'' = Inr []"
  by (simp_all add: get_recordables_def sample_engine_queries)

lemma sample_units:
  "unit_of ''V_m'' = ''mV''" "unit_of ''w_vec'' = ''unknown''" "unit_of ''spikes'' = ''ms''"
  by (simp_all add: unit_of_def UNITS_MAP_def)

lemma sample_native_iaf:
  "native_cell_type id sample_engine ''iaf_psc_alpha'' = Inr (iaf_psc_alpha_descriptor, [])"
  by (simp add: native_cell_type_def sample_get_defaults_iaf sample_receptor_types
      sample_recordables sample_engine_queries sample_units dict_of_pairs_def
      iaf_psc_alpha_descriptor_def Let_def)

lemma sample_native_poisson:
  "native_cell_type id sample_engine ''poisson_generator'' =
     Inr (poisson_generator_descriptor, [IgnoringParameter ''label'' T_str])"
  by (simp add: native_cell_type_def sample_get_defaults_poisson sample_receptor_types
      sample_recordables sample_engine_queries sample_units dict_of_pairs_def
      poisson_generator_descriptor_def Let_def)

subsection \<open>Claims about the descriptor\<close>

text \<open>
  Claim C5. Whatever the engine's default-parameter dictionary holds, the parameter map
  of the descriptor that \<^verbatim>\<open>native_cell_type\<close> produces has no entry under a name of the
  denylist \<open>ignore\<close>, of whatever type the value is.
\<close>

theorem denylist_excluded:
  assumes "native_cell_type mk eng model_name = Inr (d, ws)"
    and "n \<in> set ignore"
  shows "default_parameters d n = None"
proof -
  from assms(1) obtain acc where g: "get_defaults mk eng model_name = Inr acc"
    and d: "default_parameters d = default_params acc"
    by (rule native_cell_type_fields)
  from g obtain defaults where
    l: "defaults_loop mk (dict_get defaults ''recordables'' (VList [])) defaults empty_acc = Inr acc"
    by (auto simp: get_defaults_def split: sum.splits)
  from defaults_loop_params_ignored [OF l assms(2)] d show ?thesis
    by (simp add: empty_acc_def)
qed

text \<open>
  On the sample engine: \<^verbatim>\<open>frozen\<close> holds a boolean, which the type rule accepts, and
  \<^verbatim>\<open>model\<close> a string; both are on the denylist and neither is a parameter.
\<close>

theorem denylist_excluded_witness:
  "native_cell_type id sample_engine ''iaf_psc_alpha'' = Inr (iaf_psc_alpha_descriptor, []) \<and>
   ''frozen'' \<in> set ignore \<and> ''model'' \<in> set ignore \<and>
   default_parameters iaf_psc_alpha_descriptor ''frozen'' = None \<and>
   default_parameters iaf_psc_alpha_descriptor ''model'' = None"
  using denylist_excluded [OF sample_native_iaf sample_names_ignored(4)]
    denylist_excluded [OF sample_native_iaf sample_names_ignored(1)]
    sample_native_iaf sample_names_ignored(1,4)
  by simp

text \<open>
  Claim C6. The unit map of a descriptor has an entry for every recordable name the
  engine reported, and its keys are exactly the names of the descriptor's recordable list
  (the reported names and \<^verbatim>\<open>spikes\<close>); each name is mapped to its unit in
  \<open>UNITS_MAP\<close>, or to \<^verbatim>\<open>unknown\<close> when the table has no entry for it.
\<close>

theorem units_cover_recordables:
  assumes "native_cell_type mk eng model_name = Inr (d, ws)"
    and "get_recordables eng model_name = Inr reported"
  shows "set reported \<subseteq> dom (units d) \<and> dom (units d) = set (recordable d) \<and>
         (\<forall>n. n \<in> set (recordable d) \<longrightarrow>
            units d n = Some (case UNITS_MAP n of Some u \<Rightarrow> u | None \<Rightarrow> ''unknown''))"
proof -
  from assms(1) obtain reported' where r: "get_recordables eng model_name = Inr reported'"
    and rd: "recordable d = reported' @ [''spikes'']"
    and u: "units d = dict_of_pairs (map (\<lambda>var. (var, unit_of var)) (recordable d))"
    by (rule native_cell_type_fields)
  from r assms(2) have same: "reported' = reported" by simp
  have look: "units d n = (if n \<in> set (recordable d) then Some (unit_of n) else None)" for n
    unfolding u dict_of_pairs_lookup ..
  have "dom (units d) = set (recordable d)"
    by (auto simp: look dom_def split: if_splits)
  moreover have "set reported \<subseteq> set (recordable d)"
    using rd same by auto
  ultimately show ?thesis
    by (simp add: look unit_of_def)
qed

text \<open>
  On the sample engine: \<^verbatim>\<open>V_m\<close> is in the table, \<^verbatim>\<open>w_vec\<close> is not.
\<close>

theorem units_cover_recordables_witness:
  "native_cell_type id sample_engine ''iaf_psc_alpha'' = Inr (iaf_psc_alpha_descriptor, []) \<and>
   get_recordables sample_engine ''iaf_psc_alpha'' = Inr [''V_m'', ''w_vec''] \<and>
   set [''V_m'', ''w_vec''] \<subseteq> dom (units iaf_psc_alpha_descriptor) \<and>
   dom (units iaf_psc_alpha_descriptor) = set (recordable iaf_psc_alpha_descriptor) \<and>
   ''w_vec'' \<in> set (recordable iaf_psc_alpha_descriptor) \<and>
   units iaf_psc_alpha_descriptor ''V_m'' = Some ''mV'' \<and>
   units iaf_psc_alpha_descriptor ''w_vec'' = Some ''unknown''"
proof -
  have m: "''w_vec'' \<in> set (recordable iaf_psc_alpha_descriptor)"
    by (simp add: iaf_psc_alpha_descriptor_def)
  have v: "units iaf_psc_alpha_descriptor ''V_m'' = Some ''mV''"
    "units iaf_psc_alpha_descriptor ''w_vec'' = Some ''unknown''"
    by (simp_all add: iaf_psc_alpha_descriptor_def)
  from units_cover_recordables [OF sample_native_iaf sample_recordables(1)]
    sample_native_iaf sample_recordables(1) m v
  show ?thesis by blast
qed

text \<open>
  Claim C7. The flags \<open>always_local\<close> and \<open>uses_parrot\<close> of a descriptor are both true
  when the engine classifies the model's element type as \<^verbatim>\<open>stimulator\<close>, and both false
  for every other classification.
\<close>

theorem stimulator_flags:
  assumes "native_cell_type mk eng model_name = Inr (d, ws)"
    and "GetDefaults_element_type eng model_name = Inr element_type"
  shows "always_local d = (element_type = VStr ''stimulator'') \<and>
         uses_parrot d = (element_type = VStr ''stimulator'')"
proof -
  from assms(1) obtain et where e: "GetDefaults_element_type eng model_name = Inr et"
    and a: "always_local d = (et = VStr ''stimulator'')"
    and u: "uses_parrot d = (et = VStr ''stimulator'')"
    by (rule native_cell_type_fields)
  from e assms(2) have "et = element_type" by simp
  with a u show ?thesis by simp
qed

text \<open>On the sample engine: a stimulator and a neuron.\<close>

theorem stimulator_flags_witness:
  "native_cell_type id sample_engine ''poisson_generator'' =
     Inr (poisson_generator_descriptor, [IgnoringParameter ''label'' T_str]) \<and>
   GetDefaults_element_type sample_engine ''poisson_generator'' = Inr (VStr ''stimulator'') \<and>
   always_local poisson_generator_descriptor \<and> uses_parrot poisson_generator_descriptor \<and>
   native_cell_type id sample_engine ''iaf_psc_alpha'' = Inr (iaf_psc_alpha_descriptor, []) \<and>
   GetDefaults_element_type sample_engine ''iaf_psc_alpha'' = Inr (VStr ''neuron'') \<and>
   \<not> always_local iaf_psc_alpha_descriptor \<and> \<not> uses_parrot iaf_psc_alpha_descriptor"
  using stimulator_flags [OF sample_native_poisson sample_engine_queries(6)]
    stimulator_flags [OF sample_native_iaf sample_engine_queries(5)]
    sample_native_poisson sample_native_iaf sample_engine_queries(5,6)
  by simp

text \<open>
  Claim C8. When the engine's query for the recordables of a model fails with an engine
  error (\<open>NESTError\<close>), \<^verbatim>\<open>get_recordables\<close> returns the empty list and raises nothing.
\<close>

theorem recordables_failure_not_propagated:
  assumes "GetDefaults_recordables eng model_name = Inl NESTError"
  shows "get_recordables eng model_name = Inr []"
  using assms by (simp add: get_recordables_def)

text \<open>On the sample engine: the stimulator has no recordables entry.\<close>

theorem recordables_failure_not_propagated_witness:
  "GetDefaults_recordables sample_engine ''poisson_generator'' = Inl NESTError \<and>
   get_recordables sample_engine ''poisson_generator'' = Inr []"
  using recordables_failure_not_propagated [OF sample_engine_queries(4)]
    sample_engine_queries(4)
  by simp

text \<open>
  Claim C10. The recordable list of every descriptor is the list of names the engine
  reported followed by \<^verbatim>\<open>spikes\<close>; so it contains \<^verbatim>\<open>spikes\<close> and is not empty, also
  when the engine reports nothing; and the unit map maps \<^verbatim>\<open>spikes\<close> to \<^verbatim>\<open>ms\<close>.
\<close>

theorem spikes_always_recordable:
  assumes "native_cell_type mk eng model_name = Inr (d, ws)"
  shows "\<exists>reported. get_recordables eng model_name = Inr reported \<and>
           recordable d = reported @ [''spikes''] \<and>
           ''spikes'' \<in> set (recordable d) \<and> recordable d \<noteq> [] \<and>
           units d ''spikes'' = Some ''ms''"
proof -
  from assms obtain reported where r: "get_recordables eng model_name = Inr reported"
    and rd: "recordable d = reported @ [''spikes'']"
    and u: "units d = dict_of_pairs (map (\<lambda>var. (var, unit_of var)) (recordable d))"
    by (rule native_cell_type_fields)
  have "unit_of ''spikes'' = ''ms''" by (simp add: unit_of_def UNITS_MAP_def)
  with rd have "units d ''spikes'' = Some ''ms''"
    unfolding u dict_of_pairs_lookup by simp
  with r rd show ?thesis by simp
qed

text \<open>
  On the sample engine: the stimulator, for which the engine reports no recordables.
\<close>

theorem spikes_always_recordable_witness:
  "native_cell_type id sample_engine ''poisson_generator'' =
     Inr (poisson_generator_descriptor, [IgnoringParameter ''label'' T_str]) \<and>
   get_recordables sample_engine ''poisson_generator'' = Inr [] \<and>
   recordable poisson_generator_descriptor = [] @ [''spikes''] \<and>
   ''spikes'' \<in> set (recordable poisson_generator_descriptor) \<and>
   recordable poisson_generator_descriptor \<noteq> [] \<and>
   units poisson_generator_descriptor ''spikes'' = Some ''ms''"
  using spikes_always_recordable [OF sample_native_poisson] sample_native_poisson
    sample_recordables(2)
  by auto

text \<open>
  Claim C2, as the code has it. An entry is in the parameter map of a descriptor only
  when its value is an \<^verbatim>\<open>int\<close> (a \<^verbatim>\<open>bool\<close> included), a \<^verbatim>\<open>float\<close>, a \<^verbatim>\<open>Sequence\<close> or
  an array, and it is stored after conversion. The warnings are exactly one for each
  entry that is not named among the recordables, is not on the denylist and has a value
  of another type; such an entry is in neither map, and its warning names it and the
  type. An entry named among the recordables is an initial value whatever its type, with
  no warning. An entry on the denylist that is not a recordable is dropped with no
  warning: the second conjunct lists every warning.
\<close>

theorem type_rule:
  assumes "native_cell_type mk eng model_name = Inr (d, ws)"
    and "GetDefaults eng model_name = Inr defaults"
    and "variables = dict_get defaults ''recordables'' (VList [])"
  shows "(\<forall>n v. default_parameters d n = Some v \<longrightarrow>
            (\<exists>v0. (n, v0) \<in> set defaults \<and> isinstance v0 valid_types \<and> v = mk v0)) \<and>
         ws = map (\<lambda>(n, v). IgnoringParameter n (type_of v))
                (filter (\<lambda>(n, v). py_in n variables = Inr False \<and> n \<notin> set ignore \<and>
                           \<not> isinstance v valid_types) defaults) \<and>
         (distinct (map fst defaults) \<longrightarrow>
            (\<forall>n v0. (n, v0) \<in> set defaults \<and> py_in n variables = Inr False \<and>
                     n \<notin> set ignore \<and> \<not> isinstance v0 valid_types \<longrightarrow>
               default_parameters d n = None \<and> initial_values d n = None \<and>
               IgnoringParameter n (type_of v0) \<in> set ws) \<and>
            (\<forall>n v0. (n, v0) \<in> set defaults \<and> py_in n variables = Inr True \<longrightarrow>
               initial_values d n = Some v0))"
proof -
  from assms(1) obtain acc where g: "get_defaults mk eng model_name = Inr acc"
    and dp: "default_parameters d = default_params acc"
    and di: "initial_values d = default_initial_values acc"
    and dw: "ws = warned acc"
    by (rule native_cell_type_fields)
  from g assms(2,3) have l: "defaults_loop mk variables defaults empty_acc = Inr acc"
    by (simp add: get_defaults_def)
  have a: "\<exists>v0. (n, v0) \<in> set defaults \<and> isinstance v0 valid_types \<and> v = mk v0"
    if "default_parameters d n = Some v" for n v
    using defaults_loop_params_origin [OF l, of n v] that by (auto simp: empty_acc_def dp)
  have w: "ws = map (\<lambda>(n, v). IgnoringParameter n (type_of v))
                (filter (\<lambda>(n, v). py_in n variables = Inr False \<and> n \<notin> set ignore \<and>
                           \<not> isinstance v valid_types) defaults)"
    using defaults_loop_warned [OF l] by (simp add: empty_acc_def dw)
  have k: "initial_values d n = Some v0"
    if "distinct (map fst defaults)" "(n, v0) \<in> set defaults" "py_in n variables = Inr True"
    for n v0
    using defaults_loop_initial_kept [OF l that] by (simp add: di)
  have r: "default_parameters d n = None \<and> initial_values d n = None \<and>
           IgnoringParameter n (type_of v0) \<in> set ws"
    if dist: "distinct (map fst defaults)" and m: "(n, v0) \<in> set defaults"
      and rj: "py_in n variables = Inr False" "n \<notin> set ignore" "\<not> isinstance v0 valid_types"
    for n v0
  proof -
    have uniq: "v1 = v0" if "(n, v1) \<in> set defaults" for v1
      using dist m that by (meson eq_key_imp_eq_value)
    have p: "default_parameters d n = None"
    proof (cases "default_parameters d n")
      case None
      then show ?thesis .
    next
      case (Some v)
      from a [OF Some] obtain v1 where "(n, v1) \<in> set defaults" "isinstance v1 valid_types"
        by blast
      with uniq rj(3) show ?thesis by auto
    qed
    have i: "initial_values d n = None"
    proof (cases "initial_values d n")
      case None
      then show ?thesis .
    next
      case (Some v)
      then have "default_initial_values acc n = Some v" by (simp add: di)
      from defaults_loop_initial_origin [OF l this] rj(1) show ?thesis
        by (auto simp: empty_acc_def)
    qed
    from m rj have "IgnoringParameter n (type_of v0) \<in> set ws"
      unfolding w by (force simp: image_iff)
    with p i show ?thesis by simp
  qed
  from a w k r show ?thesis by blast
qed

text \<open>
  On the sample engine: the stimulator's \<^verbatim>\<open>rate\<close> is kept, its \<^verbatim>\<open>label\<close> (a string)
  is dropped with the one warning; the neuron's \<^verbatim>\<open>w_vec\<close> (a tuple, named among the
  recordables) is an initial value.
\<close>

theorem type_rule_witness:
  "native_cell_type id sample_engine ''poisson_generator'' =
     Inr (poisson_generator_descriptor, [IgnoringParameter ''label'' T_str]) \<and>
   GetDefaults sample_engine ''poisson_generator'' = Inr poisson_generator_defaults \<and>
   distinct (map fst poisson_generator_defaults) \<and>
   default_parameters poisson_generator_descriptor ''rate'' = Some (VFloat 0) \<and>
   (''rate'', VFloat 0) \<in> set poisson_generator_defaults \<and> isinstance (VFloat 0) valid_types \<and>
   (''label'', VStr []) \<in> set poisson_generator_defaults \<and>
   py_in ''label'' (dict_get poisson_generator_defaults ''recordables'' (VList [])) = Inr False \<and>
   ''label'' \<notin> set ignore \<and> \<not> isinstance (VStr []) valid_types \<and>
   default_parameters poisson_generator_descriptor ''label'' = None \<and>
   initial_values poisson_generator_descriptor ''label'' = None \<and>
   native_cell_type id sample_engine ''iaf_psc_alpha'' = Inr (iaf_psc_alpha_descriptor, []) \<and>
   GetDefaults sample_engine ''iaf_psc_alpha'' = Inr iaf_psc_alpha_defaults \<and>
   distinct (map fst iaf_psc_alpha_defaults) \<and>
   (''w_vec'', VTuple [VFloat 1, VFloat 2]) \<in> set iaf_psc_alpha_defaults \<and>
   py_in ''w_vec'' (dict_get iaf_psc_alpha_defaults ''recordables'' (VList [])) = Inr True \<and>
   initial_values iaf_psc_alpha_descriptor ''w_vec'' = Some (VTuple [VFloat 1, VFloat 2])"
proof -
  have p: "distinct (map fst poisson_generator_defaults)"
    "(''rate'', VFloat 0) \<in> set poisson_generator_defaults"
    "(''label'', VStr []) \<in> set poisson_generator_defaults"
    "py_in ''label'' (dict_get poisson_generator_defaults ''recordables'' (VList [])) = Inr False"
    by (simp_all add: poisson_generator_defaults_def dict_get_def)
  have t: "isinstance (VFloat 0) valid_types" "\<not> isinstance (VStr []) valid_types"
    by (simp_all add: isinstance_def issubclass_def valid_types_def)
  have i: "distinct (map fst iaf_psc_alpha_defaults)"
    "(''w_vec'', VTuple [VFloat 1, VFloat 2]) \<in> set iaf_psc_alpha_defaults"
    "py_in ''w_vec'' (dict_get iaf_psc_alpha_defaults ''recordables'' (VList [])) = Inr True"
    by (simp_all add: iaf_psc_alpha_defaults_def dict_get_def)
  have r: "default_parameters poisson_generator_descriptor ''rate'' = Some (VFloat 0)"
    by (simp add: poisson_generator_descriptor_def)
  from type_rule [OF sample_native_poisson sample_engine_queries(2) refl] p(1,3,4)
    sample_names_ignored(10) t(2)
  have a: "default_parameters poisson_generator_descriptor ''label'' = None \<and>
           initial_values poisson_generator_descriptor ''label'' = None"
    by blast
  from type_rule [OF sample_native_iaf sample_engine_queries(1) refl] i
  have b: "initial_values iaf_psc_alpha_descriptor ''w_vec'' = Some (VTuple [VFloat 1, VFloat 2])"
    by blast
  from a b p t i r sample_native_poisson sample_native_iaf sample_engine_queries(1,2)
    sample_names_ignored(10)
  show ?thesis by simp
qed

text \<open>
  Claim C2 as stated fails on the sample engine. The entry \<^verbatim>\<open>model\<close> of
  \<^verbatim>\<open>iaf_psc_alpha\<close> holds a string, a type outside the accepted set; it is dropped, and
  no warning is emitted for it (no warning at all is emitted for this model). The entry
  \<^verbatim>\<open>w_vec\<close> holds a tuple, also outside the accepted set; it is named among the
  recordables and is kept as an initial value, again without a warning.
\<close>

theorem type_rule_counterexample:
  "native_cell_type id sample_engine ''iaf_psc_alpha'' = Inr (iaf_psc_alpha_descriptor, []) \<and>
   GetDefaults sample_engine ''iaf_psc_alpha'' = Inr iaf_psc_alpha_defaults \<and>
   (''model'', VStr ''iaf_psc_alpha'') \<in> set iaf_psc_alpha_defaults \<and>
   \<not> isinstance (VStr ''iaf_psc_alpha'') valid_types \<and>
   default_parameters iaf_psc_alpha_descriptor ''model'' = None \<and>
   initial_values iaf_psc_alpha_descriptor ''model'' = None \<and>
   (''w_vec'', VTuple [VFloat 1, VFloat 2]) \<in> set iaf_psc_alpha_defaults \<and>
   \<not> isinstance (VTuple [VFloat 1, VFloat 2]) valid_types \<and>
   initial_values iaf_psc_alpha_descriptor ''w_vec'' = Some (VTuple [VFloat 1, VFloat 2])"
proof -
  have "(''model'', VStr ''iaf_psc_alpha'') \<in> set iaf_psc_alpha_defaults"
    "(''w_vec'', VTuple [VFloat 1, VFloat 2]) \<in> set iaf_psc_alpha_defaults"
    by (simp_all add: iaf_psc_alpha_defaults_def)
  moreover have "\<not> isinstance (VStr ''iaf_psc_alpha'') valid_types"
    "\<not> isinstance (VTuple [VFloat 1, VFloat 2]) valid_types"
    by (simp_all add: isinstance_def issubclass_def valid_types_def)
  moreover have "default_parameters iaf_psc_alpha_descriptor ''model'' = None"
    "initial_values iaf_psc_alpha_descriptor ''model'' = None"
    "initial_values iaf_psc_alpha_descriptor ''w_vec'' = Some (VTuple [VFloat 1, VFloat 2])"
    by (simp_all add: iaf_psc_alpha_descriptor_def)
  ultimately show ?thesis
    using sample_native_iaf sample_engine_queries(1) by simp
qed

section \<open>Properties of session control\<close>

subsection \<open>The seed of the random number generator\<close>

lemma plain_collaborators_calls:
  "common_setup plain_collaborators timestep min_delay extra_params = None"
  "state_clear plain_collaborators st = Inr st"
  "set_delays plain_collaborators min_delay max_delay w = Inr w"
  "SetDefaults plain_collaborators model params w = Inr w"
  "rank plain_collaborators w = 0"
  "get_io plain_collaborators filename w = Inr (filename, w)"
  "write_data plain_collaborators population io variables w = Inr w"
  "rmtree plain_collaborators tempdir w =
     (if tempdir \<in> set w then Inr (removeAll tempdir w) else Inl FileNotFoundError)"
  by (simp_all add: plain_collaborators_def)

lemma set_kernel_rng_seeds_final:
  assumes "set_kernel_rng_seeds extra_params st = Inr (st', ws)"
  shows "rng_seed st' =
           (case map_of extra_params ''rng_seeds_seed'' of
              Some v \<Rightarrow> v
            | None \<Rightarrow> dict_get extra_params ''rng_seed'' (VInt 42))"
  using assms
  by (auto simp: set_kernel_rng_seeds_def Let_def split: sum.splits option.splits prod.splits)

lemma set_kernel_rng_seeds_warnings:
  assumes "set_kernel_rng_seeds extra_params st = Inr (st', ws)"
  shows "ws =
           (case map_of extra_params ''grng_seed'' of
              Some v \<Rightarrow> [ArgumentRenamed ''grng_seed'' ''rng_seed''] | None \<Rightarrow> []) @
           (case map_of extra_params ''rng_seeds'' of
              Some v \<Rightarrow> [RngSeedsUnavailable] | None \<Rightarrow> []) @
           (case map_of extra_params ''rng_seeds_seed'' of
              Some v \<Rightarrow> [ArgumentRenamed ''rng_seeds_seed'' ''rng_seed''] | None \<Rightarrow> [])"
  using assms
  by (auto simp: set_kernel_rng_seeds_def Let_def split: sum.splits option.splits prod.splits)

text \<open>
  The seed \<^verbatim>\<open>setup\<close> leaves in the session depends on two options only:
  \<^verbatim>\<open>rng_seeds_seed\<close> when it is given, otherwise \<^verbatim>\<open>rng_seed\<close>, otherwise 42. What the
  branches for \<^verbatim>\<open>grng_seed\<close> and \<^verbatim>\<open>rng_seeds\<close> assigned is overwritten.
\<close>

lemma setup_session_rng_seed:
  assumes "setup_session ctl timestep min_delay extra_params st = Inr (r, st', ws)"
  shows "rng_seed st' =
           (case map_of extra_params ''rng_seeds_seed'' of
              Some v \<Rightarrow> v
            | None \<Rightarrow> dict_get extra_params ''rng_seed'' (VInt 42))"
  using assms
  by (auto simp: setup_session_def Let_def split: sum.splits option.splits
      dest!: set_kernel_rng_seeds_final)

lemma setup_session_warnings:
  assumes "setup_session ctl timestep min_delay extra_params st = Inr (r, st', ws)"
  shows "ws =
           (case map_of extra_params ''grng_seed'' of
              Some v \<Rightarrow> [ArgumentRenamed ''grng_seed'' ''rng_seed''] | None \<Rightarrow> []) @
           (case map_of extra_params ''rng_seeds'' of
              Some v \<Rightarrow> [RngSeedsUnavailable] | None \<Rightarrow> []) @
           (case map_of extra_params ''rng_seeds_seed'' of
              Some v \<Rightarrow> [ArgumentRenamed ''rng_seeds_seed'' ''rng_seed''] | None \<Rightarrow> [])"
  using assms
  by (auto simp: setup_session_def Let_def split: sum.splits option.splits
      dest!: set_kernel_rng_seeds_warnings)

lemma sample_setup_threads:
  "setup_session plain_collaborators (VFloat (1 / 10)) (VStr ''auto'') [(''threads'', VInt 4)]
     fresh_state =
     Inr (0, fresh_state\<lparr>threads := VInt 4, num_threads := VInt 4, rng_seed := VInt 42\<rparr>, [])"
  by (simp add: setup_session_def plain_collaborators_calls set_given_options_def
      set_kernel_rng_seeds_def threads_or_1_def dict_get_def fresh_state_def Let_def)

lemma sample_setup_rng_seeds:
  "setup_session plain_collaborators (VFloat (1 / 10)) (VStr ''auto'')
     [(''rng_seeds'', VList [VInt 854947309, VInt 470924491])] fresh_state =
     Inr (0, fresh_state\<lparr>rng_seed := VInt 42\<rparr>, [RngSeedsUnavailable])"
  by (simp add: setup_session_def plain_collaborators_calls set_given_options_def
      set_kernel_rng_seeds_def threads_or_1_def dict_get_def fresh_state_def Let_def)

text \<open>
  Claim C1, on the code. With \<^verbatim>\<open>rng_seeds=[854947309, 470924491]\<close> as the only
  option, every call of \<^verbatim>\<open>setup\<close> that returns has emitted the one warning about
  \<^verbatim>\<open>rng_seeds\<close>, and the seed of the session is 42, not 854947309: the assignment of
  the first element is followed by the \<^verbatim>\<open>else\<close> branch of the test for
  \<^verbatim>\<open>rng_seeds_seed\<close>, which assigns the default.
\<close>

theorem legacy_seed_list_overwritten:
  assumes "setup_session ctl timestep min_delay
             [(''rng_seeds'', VList [VInt 854947309, VInt 470924491])] st = Inr (r, st', ws)"
  shows "rng_seed st' = VInt 42 \<and> rng_seed st' \<noteq> VInt 854947309 \<and> ws = [RngSeedsUnavailable]"
  using setup_session_rng_seed [OF assms] setup_session_warnings [OF assms]
  by (simp add: dict_get_def)

text \<open>With the sample collaborators, on a fresh session.\<close>

theorem legacy_seed_list_overwritten_witness:
  "setup_session plain_collaborators (VFloat (1 / 10)) (VStr ''auto'')
     [(''rng_seeds'', VList [VInt 854947309, VInt 470924491])] fresh_state =
     Inr (0, fresh_state\<lparr>rng_seed := VInt 42\<rparr>, [RngSeedsUnavailable]) \<and>
   rng_seed (fresh_state\<lparr>rng_seed := VInt 42\<rparr>) = VInt 42 \<and>
   rng_seed (fresh_state\<lparr>rng_seed := VInt 42\<rparr>) \<noteq> VInt 854947309"
  using legacy_seed_list_overwritten [OF sample_setup_rng_seeds] sample_setup_rng_seeds
  by blast

text \<open>
  Claim C9. When none of the options \<^verbatim>\<open>rng_seed\<close>, \<^verbatim>\<open>grng_seed\<close>,
  \<^verbatim>\<open>rng_seeds\<close> and \<^verbatim>\<open>rng_seeds_seed\<close> is given, the seed of the session that
  \<^verbatim>\<open>setup\<close> returns is 42.
\<close>

theorem default_seed:
  assumes "setup_session ctl timestep min_delay extra_params st = Inr (r, st', ws)"
    and "map_of extra_params ''rng_seed'' = None"
    and "map_of extra_params ''grng_seed'' = None"
    and "map_of extra_params ''rng_seeds'' = None"
    and "map_of extra_params ''rng_seeds_seed'' = None"
  shows "rng_seed st' = VInt 42"
  using setup_session_rng_seed [OF assms(1)] assms(2,5)
  by (simp add: dict_get_def)

text \<open>With the sample collaborators: \<^verbatim>\<open>setup(threads=4)\<close> on a fresh session.\<close>

theorem default_seed_witness:
  "setup_session plain_collaborators (VFloat (1 / 10)) (VStr ''auto'') [(''threads'', VInt 4)]
     fresh_state =
     Inr (0, fresh_state\<lparr>threads := VInt 4, num_threads := VInt 4, rng_seed := VInt 42\<rparr>, []) \<and>
   map_of [(''threads'', VInt 4)] ''rng_seed'' = None \<and>
   map_of [(''threads'', VInt 4)] ''grng_seed'' = None \<and>
   map_of [(''threads'', VInt 4)] ''rng_seeds'' = None \<and>
   map_of [(''threads'', VInt 4)] ''rng_seeds_seed'' = None \<and>
   rng_seed (fresh_state\<lparr>threads := VInt 4, num_threads := VInt 4, rng_seed := VInt 42\<rparr>) =
     VInt 42"
proof -
  have n: "map_of [(''threads'', VInt 4)] ''rng_seed'' = None"
    "map_of [(''threads'', VInt 4)] ''grng_seed'' = None"
    "map_of [(''threads'', VInt 4)] ''rng_seeds'' = None"
    "map_of [(''threads'', VInt 4)] ''rng_seeds_seed'' = None"
    by simp_all
  from default_seed [OF sample_setup_threads n] sample_setup_threads n show ?thesis by blast
qed

subsection \<open>The rounding check\<close>

text \<open>
  When the engine's answer is a single number, the check compares the declared delay
  with it: a difference below the time step is reported as consistent.
\<close>

lemma discrepancy_scalar:
  assumes "map_of parameters ''delay'' = Some d" and "\<bar>d - d'\<bar> < T"
  shows "discrepancy_due_to_rounding parameters (Scalar d') T = Inr True"
  using assms by (simp add: discrepancy_due_to_rounding_def)

text \<open>
  When the answer is a sequence, the check raises \<^verbatim>\<open>AttributeError\<close> for every
  dictionary that has a delay, whatever the values are.
\<close>

lemma discrepancy_values:
  assumes "map_of parameters ''delay'' = Some d"
  shows "discrepancy_due_to_rounding parameters (Values vs) T = Inl AttributeError"
  using assms by (simp add: discrepancy_due_to_rounding_def keys_index_def)

text \<open>
  Claim C3, on the code. With the parameters \<^verbatim>\<open>{'weight': 0.5, 'delay': 1.0}\<close>, the
  engine's answer \<^verbatim>\<open>[0.5, 1.0]\<close> and the time step 0.1, the declared and the realised
  delay are equal, so the claim asks for the answer true; the check raises
  \<^verbatim>\<open>AttributeError\<close> instead.
\<close>

theorem discrepancy_sequence_raises:
  "discrepancy_due_to_rounding [(''weight'', 1 / 2), (''delay'', 1)] (Values [1 / 2, 1]) (1 / 10)
     = Inl AttributeError"
  by (simp add: discrepancy_due_to_rounding_def keys_index_def)

subsection \<open>The end of a session\<close>

text \<open>Both loops add their events to the ones already recorded.\<close>

lemma write_pending_accumulates:
  "write_pending ctl reqs w evs =
     (case write_pending ctl reqs w [] of (r, w', evs') \<Rightarrow> (r, w', evs @ evs'))"
proof (induction reqs arbitrary: w evs)
  case Nil
  then show ?case by simp
next
  case (Cons req reqs)
  obtain population variables filename where req: "req = (population, variables, filename)"
    by (cases req)
  show ?case
  proof (cases "get_io ctl filename w")
    case (Inl e)
    with req show ?thesis by simp
  next
    case (Inr a)
    then obtain io w1 where g: "get_io ctl filename w = Inr (io, w1)" by (cases a) simp
    show ?thesis
    proof (cases "write_data ctl population io variables w1")
      case (Inl e)
      with req g show ?thesis by simp
    next
      case (Inr w2)
      from Cons [of w2 "evs @ [Wrote population variables filename]"]
        Cons [of w2 "[Wrote population variables filename]"] req g Inr
      show ?thesis by (simp split: prod.splits)
    qed
  qed
qed

lemma remove_tempdirs_accumulates:
  "remove_tempdirs ctl dirs w evs =
     (case remove_tempdirs ctl dirs w [] of (r, w', evs') \<Rightarrow> (r, w', evs @ evs'))"
proof (induction dirs arbitrary: w evs)
  case Nil
  then show ?case by simp
next
  case (Cons tempdir dirs)
  show ?case
  proof (cases "rmtree ctl tempdir w")
    case (Inl e)
    then show ?thesis by simp
  next
    case (Inr w1)
    from Cons [of w1 "evs @ [Removed tempdir]"] Cons [of w1 "[Removed tempdir]"] Inr
    show ?thesis by (simp split: prod.splits)
  qed
qed

lemma write_pending_events:
  "write_pending ctl reqs w evs = (None, w', evs') \<Longrightarrow>
   evs' = evs @ map (\<lambda>(p, v, f). Wrote p v f) reqs"
proof (induction ctl reqs w evs rule: write_pending.induct)
  case (1 ctl w evs)
  then show ?case by simp
next
  case (2 ctl population variables filename rest w evs)
  then show ?case by (auto split: sum.splits prod.splits)
qed

lemma remove_tempdirs_events:
  "remove_tempdirs ctl dirs w evs = (None, w', evs') \<Longrightarrow> evs' = evs @ map Removed dirs"
proof (induction ctl dirs w evs rule: remove_tempdirs.induct)
  case (1 ctl w evs)
  then show ?case by simp
next
  case (2 ctl tempdir rest w evs)
  then show ?case by (auto split: sum.splits)
qed

lemma write_pending_succeeds:
  assumes "\<forall>filename w. \<exists>io w1. get_io ctl filename w = Inr (io, w1)"
    and "\<forall>population io variables w. \<exists>w1. write_data ctl population io variables w = Inr w1"
  shows "\<exists>w' evs'. write_pending ctl reqs w evs = (None, w', evs')"
proof (induction reqs arbitrary: w evs)
  case Nil
  then show ?case by simp
next
  case (Cons req reqs)
  obtain population variables filename where req: "req = (population, variables, filename)"
    by (cases req)
  from assms(1) obtain io w1 where g: "get_io ctl filename w = Inr (io, w1)" by blast
  from assms(2) obtain w2 where d: "write_data ctl population io variables w1 = Inr w2"
    by blast
  from Cons [of w2 "evs @ [Wrote population variables filename]"] req g d
  show ?case by simp
qed

lemma remove_tempdirs_succeeds:
  assumes "\<forall>tempdir w. \<exists>w1. rmtree ctl tempdir w = Inr w1"
  shows "\<exists>w' evs'. remove_tempdirs ctl dirs w evs = (None, w', evs')"
proof (induction dirs arbitrary: w evs)
  case Nil
  then show ?case by simp
next
  case (Cons tempdir dirs)
  from assms obtain w1 where r: "rmtree ctl tempdir w = Inr w1" by blast
  from Cons [of w1 "evs @ [Removed tempdir]"] r show ?case by simp
qed

text \<open>
  The first pending write: an exception of the output handler or of the write leaves
  \<^verbatim>\<open>end\<close> at once, with the session as it was (but for what the handler did to the
  world); after a write that succeeds, \<^verbatim>\<open>end\<close> goes on as it would on the session
  without that pending write, in the world the write left.
\<close>

lemma end_session_get_io_raises:
  assumes "write_on_end st = (p, v, f) # rest" and "get_io ctl f (world st) = Inl e"
  shows "end_session ctl st = (Some e, st, [])"
  using assms by (simp add: end_session_def)

lemma end_session_write_data_raises:
  assumes "write_on_end st = (p, v, f) # rest"
    and "get_io ctl f (world st) = Inr (io, w1)"
    and "write_data ctl p io v w1 = Inl e"
  shows "end_session ctl st = (Some e, st\<lparr>world := w1\<rparr>, [])"
  using assms by (simp add: end_session_def)

lemma end_session_write_step:
  assumes "write_on_end st = (p, v, f) # rest"
    and "get_io ctl f (world st) = Inr (io, w1)"
    and "write_data ctl p io v w1 = Inr w2"
  shows "end_session ctl st =
           (case end_session ctl (st\<lparr>write_on_end := rest, world := w2\<rparr>) of
              (None, st1, evs1) \<Rightarrow> (None, st1, Wrote p v f # evs1)
            | (Some e1, st1, evs1) \<Rightarrow>
                (Some e1, st1\<lparr>write_on_end := (p, v, f) # rest\<rparr>, Wrote p v f # evs1))"
proof -
  have r: "st\<lparr>write_on_end := (p, v, f) # rest\<rparr> = st"
    using assms(1) by (cases st) simp
  have u: "st\<lparr>write_on_end := (p, v, f) # rest, world := w\<rparr> = st\<lparr>world := w\<rparr>" for w
    using assms(1) by (cases st) simp
  obtain r1 w' evs' where a: "write_pending ctl rest w2 [] = (r1, w', evs')"
    by (cases "write_pending ctl rest w2 []")
  from write_pending_accumulates [of ctl rest w2 "[Wrote p v f]"] a
  have b: "write_pending ctl rest w2 [Wrote p v f] = (r1, w', Wrote p v f # evs')" by simp
  show ?thesis
  proof (cases r1)
    case (Some e1)
    with a b assms u show ?thesis by (simp add: end_session_def)
  next
    case None
    obtain r2 w'' evs'' where c: "remove_tempdirs ctl (tempdirs st) w' evs' = (r2, w'', evs'')"
      by (cases "remove_tempdirs ctl (tempdirs st) w' evs'")
    obtain r3 w3 evs3 where d: "remove_tempdirs ctl (tempdirs st) w' [] = (r3, w3, evs3)"
      by (cases "remove_tempdirs ctl (tempdirs st) w' []")
    from remove_tempdirs_accumulates [of ctl "tempdirs st" w' evs'] c d
    have c': "r2 = r3" "w'' = w3" "evs'' = evs' @ evs3" by simp_all
    from remove_tempdirs_accumulates [of ctl "tempdirs st" w' "Wrote p v f # evs'"] d
    have e: "remove_tempdirs ctl (tempdirs st) w' (Wrote p v f # evs') =
               (r3, w3, Wrote p v f # evs' @ evs3)" by simp
    from None a b c c' e assms u show ?thesis
      by (cases r3) (simp_all add: end_session_def)
  qed
qed

text \<open>
  With no pending write left, the first temporary directory: an exception of the
  removal leaves \<^verbatim>\<open>end\<close> at once; after a removal that succeeds, \<^verbatim>\<open>end\<close> goes
  on as it would on the session without that directory.
\<close>

lemma end_session_rmtree_raises:
  assumes "write_on_end st = []" and "tempdirs st = d # ds"
    and "rmtree ctl d (world st) = Inl e"
  shows "end_session ctl st = (Some e, st, [])"
  using assms by (simp add: end_session_def)

lemma end_session_rmtree_step:
  assumes "write_on_end st = []" and "tempdirs st = d # ds"
    and "rmtree ctl d (world st) = Inr w1"
  shows "end_session ctl st =
           (case end_session ctl (st\<lparr>tempdirs := ds, world := w1\<rparr>) of
              (None, st1, evs1) \<Rightarrow> (None, st1, Removed d # evs1)
            | (Some e1, st1, evs1) \<Rightarrow> (Some e1, st1\<lparr>tempdirs := d # ds\<rparr>, Removed d # evs1))"
proof -
  have u: "st\<lparr>tempdirs := d # ds, world := w\<rparr> = st\<lparr>world := w\<rparr>" for w
    using assms(2) by (cases st) simp
  obtain r3 w3 evs3 where d: "remove_tempdirs ctl ds w1 [] = (r3, w3, evs3)"
    by (cases "remove_tempdirs ctl ds w1 []")
  from remove_tempdirs_accumulates [of ctl ds w1 "[Removed d]"] d
  have e: "remove_tempdirs ctl ds w1 [Removed d] = (r3, w3, Removed d # evs3)" by simp
  from d e assms u show ?thesis
    by (cases r3) (simp_all add: end_session_def)
qed

lemma sample_end_recording:
  "end_session plain_collaborators recording_state =
     (None, fresh_state,
      [Wrote ''p1'' (VList [VStr ''V_m'']) ''Vm.pkl'',
       Wrote ''p2'' (VStr ''spikes'') ''spikes.h5'',
       Removed ''/tmp/tmpa1''])"
  by (simp add: end_session_def recording_state_def fresh_state_def plain_collaborators_calls)

lemma sample_end_second_write:
  "end_session plain_collaborators
     (recording_state\<lparr>write_on_end := [(''p2'', VStr ''spikes'', ''spikes.h5'')],
                      world := [''/tmp/tmpa1'']\<rparr>) =
     (None, fresh_state, [Wrote ''p2'' (VStr ''spikes'') ''spikes.h5'', Removed ''/tmp/tmpa1''])"
  by (simp add: end_session_def recording_state_def fresh_state_def plain_collaborators_calls)

lemma sample_end_stale:
  "end_session plain_collaborators stale_state =
     (Some FileNotFoundError, stale_state,
      [Wrote ''p1'' (VList [VStr ''V_m'']) ''Vm.pkl'',
       Wrote ''p2'' (VStr ''spikes'') ''spikes.h5''])"
  by (simp add: end_session_def stale_state_def recording_state_def fresh_state_def
      plain_collaborators_calls)

lemma strict_collaborators_calls:
  "get_io strict_collaborators ''Vm.txt'' w = Inl (OtherError ''IOError'')"
  "get_io strict_collaborators ''spikes.h5'' w = Inr (''spikes.h5'', w)"
  "write_data strict_collaborators ''p0'' io variables w = Inl (OtherError ''NothingToWriteError'')"
  by (simp_all add: strict_collaborators_def plain_collaborators_def)

text \<open>
  Claim C4, as the code has it. When \<^verbatim>\<open>end\<close> returns, it has performed one write for
  each pending triple, in the order of the list, and then one removal for each temporary
  directory, and both lists are empty (first conjunct). It returns whenever no output
  handler, no write and no removal can raise (second); with both lists empty it calls
  none of them, returns, and leaves the session as it was (third). When it ends with an
  exception, both lists keep their contents (fourth).

  The other conjuncts say what \<^verbatim>\<open>end\<close> does with its collaborators, step by step.
  For the first pending triple it asks \<^verbatim>\<open>get_io\<close> for the handler of the file and
  calls \<^verbatim>\<open>write_data\<close> of the population with that handler, in the world the handler
  left. An exception of either is the exception of \<^verbatim>\<open>end\<close>, nothing more is called
  and no write is counted (fifth, sixth). A write that succeeds is counted once, and
  \<^verbatim>\<open>end\<close> goes on as it does on the session without that triple, in the world the
  write left; an exception met later leaves the triple in the list (seventh). With no
  pending write, the first temporary directory is removed by \<^verbatim>\<open>rmtree\<close>: its
  exception is the exception of \<^verbatim>\<open>end\<close> (eighth), and after a removal that succeeds
  \<^verbatim>\<open>end\<close> goes on with the other directories (ninth). By induction on the two lists,
  these conjuncts fix the result of \<^verbatim>\<open>end\<close> for every session and all
  collaborators: every exception of a write or a removal propagates, wherever in the
  lists it is met.
\<close>

theorem end_flushes_and_clears:
  "(end_session ctl st = (None, st', evs) \<longrightarrow>
      evs = map (\<lambda>(p, v, f). Wrote p v f) (write_on_end st) @ map Removed (tempdirs st) \<and>
      write_on_end st' = [] \<and> tempdirs st' = []) \<and>
   ((\<forall>filename w. \<exists>io w1. get_io ctl filename w = Inr (io, w1)) \<and>
    (\<forall>population io variables w. \<exists>w1. write_data ctl population io variables w = Inr w1) \<and>
    (\<forall>tempdir w. \<exists>w1. rmtree ctl tempdir w = Inr w1) \<longrightarrow>
      fst (end_session ctl st) = None) \<and>
   (write_on_end st = [] \<and> tempdirs st = [] \<longrightarrow> end_session ctl st = (None, st, [])) \<and>
   (end_session ctl st = (Some e, st', evs) \<longrightarrow>
      write_on_end st' = write_on_end st \<and> tempdirs st' = tempdirs st) \<and>
   (write_on_end st = (p, v, f) # rest \<and> get_io ctl f (world st) = Inl e \<longrightarrow>
      end_session ctl st = (Some e, st, [])) \<and>
   (write_on_end st = (p, v, f) # rest \<and> get_io ctl f (world st) = Inr (io, w1) \<and>
    write_data ctl p io v w1 = Inl e \<longrightarrow>
      end_session ctl st = (Some e, st\<lparr>world := w1\<rparr>, [])) \<and>
   (write_on_end st = (p, v, f) # rest \<and> get_io ctl f (world st) = Inr (io, w1) \<and>
    write_data ctl p io v w1 = Inr w2 \<longrightarrow>
      end_session ctl st =
        (case end_session ctl (st\<lparr>write_on_end := rest, world := w2\<rparr>) of
           (None, st1, evs1) \<Rightarrow> (None, st1, Wrote p v f # evs1)
         | (Some e1, st1, evs1) \<Rightarrow>
             (Some e1, st1\<lparr>write_on_end := (p, v, f) # rest\<rparr>, Wrote p v f # evs1))) \<and>
   (write_on_end st = [] \<and> tempdirs st = d # ds \<and> rmtree ctl d (world st) = Inl e \<longrightarrow>
      end_session ctl st = (Some e, st, [])) \<and>
   (write_on_end st = [] \<and> tempdirs st = d # ds \<and> rmtree ctl d (world st) = Inr w3 \<longrightarrow>
      end_session ctl st =
        (case end_session ctl (st\<lparr>tempdirs := ds, world := w3\<rparr>) of
           (None, st1, evs1) \<Rightarrow> (None, st1, Removed d # evs1)
         | (Some e1, st1, evs1) \<Rightarrow>
             (Some e1, st1\<lparr>tempdirs := d # ds\<rparr>, Removed d # evs1)))"
proof (intro conjI impI)
  assume e: "end_session ctl st = (None, st', evs)"
  then obtain w1 evs1 w2 where
    a: "write_pending ctl (write_on_end st) (world st) [] = (None, w1, evs1)"
    and b: "remove_tempdirs ctl (tempdirs st) w1 evs1 = (None, w2, evs)"
    and c: "st' = st\<lparr>tempdirs := [], write_on_end := [], world := w2\<rparr>"
    by (auto simp: end_session_def split: prod.splits option.splits)
  from write_pending_events [OF a] remove_tempdirs_events [OF b]
  show "evs = map (\<lambda>(p, v, f). Wrote p v f) (write_on_end st) @ map Removed (tempdirs st)"
    by simp
  from c show "write_on_end st' = []" "tempdirs st' = []" by simp_all
next
  assume t: "(\<forall>filename w. \<exists>io w1. get_io ctl filename w = Inr (io, w1)) \<and>
    (\<forall>population io variables w. \<exists>w1. write_data ctl population io variables w = Inr w1) \<and>
    (\<forall>tempdir w. \<exists>w1. rmtree ctl tempdir w = Inr w1)"
  then obtain w1 evs1 where
    a: "write_pending ctl (write_on_end st) (world st) [] = (None, w1, evs1)"
    using write_pending_succeeds [of ctl "write_on_end st" "world st" "[]"] by blast
  from t obtain w2 evs2 where
    b: "remove_tempdirs ctl (tempdirs st) w1 evs1 = (None, w2, evs2)"
    using remove_tempdirs_succeeds [of ctl "tempdirs st" w1 evs1] by blast
  from a b show "fst (end_session ctl st) = None"
    by (simp add: end_session_def)
next
  assume "write_on_end st = [] \<and> tempdirs st = []"
  then show "end_session ctl st = (None, st, [])"
    by (simp add: end_session_def)
next
  assume "end_session ctl st = (Some e, st', evs)"
  then show "write_on_end st' = write_on_end st" "tempdirs st' = tempdirs st"
    by (auto simp: end_session_def split: prod.splits option.splits)
next
  assume "write_on_end st = (p, v, f) # rest \<and> get_io ctl f (world st) = Inl e"
  then show "end_session ctl st = (Some e, st, [])"
    using end_session_get_io_raises [of st p v f rest ctl e] by simp
next
  assume "write_on_end st = (p, v, f) # rest \<and> get_io ctl f (world st) = Inr (io, w1) \<and>
    write_data ctl p io v w1 = Inl e"
  then show "end_session ctl st = (Some e, st\<lparr>world := w1\<rparr>, [])"
    using end_session_write_data_raises [of st p v f rest ctl io w1 e] by simp
next
  assume "write_on_end st = (p, v, f) # rest \<and> get_io ctl f (world st) = Inr (io, w1) \<and>
    write_data ctl p io v w1 = Inr w2"
  then show "end_session ctl st =
        (case end_session ctl (st\<lparr>write_on_end := rest, world := w2\<rparr>) of
           (None, st1, evs1) \<Rightarrow> (None, st1, Wrote p v f # evs1)
         | (Some e1, st1, evs1) \<Rightarrow>
             (Some e1, st1\<lparr>write_on_end := (p, v, f) # rest\<rparr>, Wrote p v f # evs1))"
    using end_session_write_step [of st p v f rest ctl io w1 w2] by simp
next
  assume "write_on_end st = [] \<and> tempdirs st = d # ds \<and> rmtree ctl d (world st) = Inl e"
  then show "end_session ctl st = (Some e, st, [])"
    using end_session_rmtree_raises [of st d ds ctl e] by simp
next
  assume "write_on_end st = [] \<and> tempdirs st = d # ds \<and> rmtree ctl d (world st) = Inr w3"
  then show "end_session ctl st =
        (case end_session ctl (st\<lparr>tempdirs := ds, world := w3\<rparr>) of
           (None, st1, evs1) \<Rightarrow> (None, st1, Removed d # evs1)
         | (Some e1, st1, evs1) \<Rightarrow>
             (Some e1, st1\<lparr>tempdirs := d # ds\<rparr>, Removed d # evs1))"
    using end_session_rmtree_step [of st d ds ctl w3] by simp
qed

text \<open>
  With the sample collaborators, one session for each conjunct: the session with two
  pending writes and one temporary directory, taken step by step; the session whose
  temporary directory is gone, with a removal that cannot fail; a fresh session, where
  both lists are empty; the session whose temporary directory is gone; a first pending
  write to a file the output handler refuses; a first pending write of a population
  whose write fails; and, with no pending write, a directory that is gone and one that
  exists.
\<close>

theorem end_flushes_and_clears_witness:
  "end_session plain_collaborators recording_state =
     (None, fresh_state,
      [Wrote ''p1'' (VList [VStr ''V_m'']) ''Vm.pkl'',
       Wrote ''p2'' (VStr ''spikes'') ''spikes.h5'',
       Removed ''/tmp/tmpa1'']) \<and>
   write_on_end fresh_state = [] \<and> tempdirs fresh_state = [] \<and>
   fst (end_session (plain_collaborators\<lparr>rmtree := \<lambda>tempdir w. Inr (removeAll tempdir w)\<rparr>)
          stale_state) = None \<and>
   end_session plain_collaborators fresh_state = (None, fresh_state, []) \<and>
   end_session plain_collaborators stale_state =
     (Some FileNotFoundError, stale_state,
      [Wrote ''p1'' (VList [VStr ''V_m'']) ''Vm.pkl'',
       Wrote ''p2'' (VStr ''spikes'') ''spikes.h5'']) \<and>
   write_on_end stale_state =
     [(''p1'', VList [VStr ''V_m''], ''Vm.pkl''), (''p2'', VStr ''spikes'', ''spikes.h5'')] \<and>
   tempdirs stale_state = [''/tmp/tmpa1''] \<and>
   end_session strict_collaborators text_file_state =
     (Some (OtherError ''IOError''), text_file_state, []) \<and>
   end_session strict_collaborators empty_population_state =
     (Some (OtherError ''NothingToWriteError''), empty_population_state, []) \<and>
   end_session plain_collaborators (stale_state\<lparr>write_on_end := []\<rparr>) =
     (Some FileNotFoundError, stale_state\<lparr>write_on_end := []\<rparr>, []) \<and>
   end_session plain_collaborators (recording_state\<lparr>write_on_end := []\<rparr>) =
     (None, fresh_state, [Removed ''/tmp/tmpa1''])"
proof -
  have lists: "write_on_end fresh_state = []" "tempdirs fresh_state = []"
    "write_on_end stale_state =
       [(''p1'', VList [VStr ''V_m''], ''Vm.pkl''), (''p2'', VStr ''spikes'', ''spikes.h5'')]"
    "tempdirs stale_state = [''/tmp/tmpa1'']"
    by (simp_all add: fresh_state_def stale_state_def recording_state_def)
  have step: "end_session plain_collaborators recording_state =
     (None, fresh_state,
      [Wrote ''p1'' (VList [VStr ''V_m'']) ''Vm.pkl'',
       Wrote ''p2'' (VStr ''spikes'') ''spikes.h5'',
       Removed ''/tmp/tmpa1''])"
  proof -
    have "write_on_end recording_state =
            (''p1'', VList [VStr ''V_m''], ''Vm.pkl'') # [(''p2'', VStr ''spikes'', ''spikes.h5'')] \<and>
          get_io plain_collaborators ''Vm.pkl'' (world recording_state) =
            Inr (''Vm.pkl'', [''/tmp/tmpa1'']) \<and>
          write_data plain_collaborators ''p1'' ''Vm.pkl'' (VList [VStr ''V_m''])
            [''/tmp/tmpa1''] = Inr [''/tmp/tmpa1'']"
      by (simp add: recording_state_def plain_collaborators_calls)
    from end_flushes_and_clears
      [where ctl = plain_collaborators and st = recording_state and p = "''p1''"
         and v = "VList [VStr ''V_m'']" and f = "''Vm.pkl''"
         and rest = "[(''p2'', VStr ''spikes'', ''spikes.h5'')]" and io = "''Vm.pkl''"
         and ?w1.0 = "[''/tmp/tmpa1'']" and ?w2.0 = "[''/tmp/tmpa1'']",
       THEN conjunct2, THEN conjunct2, THEN conjunct2, THEN conjunct2, THEN conjunct2,
       THEN conjunct2, THEN conjunct1, THEN mp, OF this]
    show ?thesis by (simp add: sample_end_second_write)
  qed
  have total: "fst (end_session
          (plain_collaborators\<lparr>rmtree := \<lambda>tempdir w. Inr (removeAll tempdir w)\<rparr>)
          stale_state) = None"
    by (rule end_flushes_and_clears [THEN conjunct2, THEN conjunct1, THEN mp])
      (simp add: plain_collaborators_def)
  have empty: "end_session plain_collaborators fresh_state = (None, fresh_state, [])"
    by (rule end_flushes_and_clears [THEN conjunct2, THEN conjunct2, THEN conjunct1, THEN mp])
      (simp add: lists)
  have refused: "end_session strict_collaborators text_file_state =
     (Some (OtherError ''IOError''), text_file_state, [])"
  proof -
    have "write_on_end text_file_state =
            (''p1'', VList [VStr ''V_m''], ''Vm.txt'') # [(''p2'', VStr ''spikes'', ''spikes.h5'')] \<and>
          get_io strict_collaborators ''Vm.txt'' (world text_file_state) =
            Inl (OtherError ''IOError'')"
      by (simp add: text_file_state_def strict_collaborators_calls)
    from end_flushes_and_clears
      [where ctl = strict_collaborators and st = text_file_state and p = "''p1''"
         and v = "VList [VStr ''V_m'']" and f = "''Vm.txt''"
         and rest = "[(''p2'', VStr ''spikes'', ''spikes.h5'')]"
         and e = "OtherError ''IOError''",
       THEN conjunct2, THEN conjunct2, THEN conjunct2, THEN conjunct2, THEN conjunct1,
       THEN mp, OF this]
    show ?thesis .
  qed
  have unwritten: "end_session strict_collaborators empty_population_state =
     (Some (OtherError ''NothingToWriteError''), empty_population_state, [])"
  proof -
    have "write_on_end empty_population_state = (''p0'', VStr ''spikes'', ''spikes.h5'') # [] \<and>
          get_io strict_collaborators ''spikes.h5'' (world empty_population_state) =
            Inr (''spikes.h5'', world empty_population_state) \<and>
          write_data strict_collaborators ''p0'' ''spikes.h5'' (VStr ''spikes'')
            (world empty_population_state) = Inl (OtherError ''NothingToWriteError'')"
      by (simp add: empty_population_state_def strict_collaborators_calls)
    from end_flushes_and_clears
      [where ctl = strict_collaborators and st = empty_population_state and p = "''p0''"
         and v = "VStr ''spikes''" and f = "''spikes.h5''" and rest = "[]"
         and io = "''spikes.h5''" and ?w1.0 = "world empty_population_state"
         and e = "OtherError ''NothingToWriteError''",
       THEN conjunct2, THEN conjunct2, THEN conjunct2, THEN conjunct2, THEN conjunct2,
       THEN conjunct1, THEN mp, OF this]
    show ?thesis by simp
  qed
  have gone: "end_session plain_collaborators (stale_state\<lparr>write_on_end := []\<rparr>) =
     (Some FileNotFoundError, stale_state\<lparr>write_on_end := []\<rparr>, [])"
  proof -
    have "write_on_end (stale_state\<lparr>write_on_end := []\<rparr>) = [] \<and>
          tempdirs (stale_state\<lparr>write_on_end := []\<rparr>) = ''/tmp/tmpa1'' # [] \<and>
          rmtree plain_collaborators ''/tmp/tmpa1'' (world (stale_state\<lparr>write_on_end := []\<rparr>)) =
            Inl FileNotFoundError"
      by (simp add: stale_state_def recording_state_def plain_collaborators_calls)
    from end_flushes_and_clears
      [where ctl = plain_collaborators and st = "stale_state\<lparr>write_on_end := []\<rparr>"
         and d = "''/tmp/tmpa1''" and ds = "[]" and e = FileNotFoundError,
       THEN conjunct2, THEN conjunct2, THEN conjunct2, THEN conjunct2, THEN conjunct2,
       THEN conjunct2, THEN conjunct2, THEN conjunct1, THEN mp, OF this]
    show ?thesis .
  qed
  have removed: "end_session plain_collaborators (recording_state\<lparr>write_on_end := []\<rparr>) =
     (None, fresh_state, [Removed ''/tmp/tmpa1''])"
  proof -
    have h: "write_on_end (recording_state\<lparr>write_on_end := []\<rparr>) = [] \<and>
          tempdirs (recording_state\<lparr>write_on_end := []\<rparr>) = ''/tmp/tmpa1'' # [] \<and>
          rmtree plain_collaborators ''/tmp/tmpa1''
            (world (recording_state\<lparr>write_on_end := []\<rparr>)) = Inr []"
      by (simp add: recording_state_def plain_collaborators_calls)
    have r: "recording_state\<lparr>write_on_end := [], tempdirs := [], world := []\<rparr> = fresh_state"
      by (simp add: recording_state_def fresh_state_def)
    from end_flushes_and_clears
      [where ctl = plain_collaborators and st = "recording_state\<lparr>write_on_end := []\<rparr>"
         and d = "''/tmp/tmpa1''" and ds = "[]" and ?w3.0 = "[]",
       THEN conjunct2, THEN conjunct2, THEN conjunct2, THEN conjunct2, THEN conjunct2,
       THEN conjunct2, THEN conjunct2, THEN conjunct2, THEN mp, OF h]
      empty r
    show ?thesis by simp
  qed
  show ?thesis
    by (intro conjI step lists total empty sample_end_stale refused unwritten gone removed)
qed

text \<open>
  Claim C4 as stated fails on the session whose temporary directory no longer exists:
  \<^verbatim>\<open>end\<close> performs the two writes, the removal raises \<^verbatim>\<open>FileNotFoundError\<close>, and
  both lists are left as they were, not empty.
\<close>

theorem end_flushes_and_clears_counterexample:
  "end_session plain_collaborators stale_state =
     (Some FileNotFoundError, stale_state,
      [Wrote ''p1'' (VList [VStr ''V_m'']) ''Vm.pkl'',
       Wrote ''p2'' (VStr ''spikes'') ''spikes.h5'']) \<and>
   tempdirs stale_state = [''/tmp/tmpa1''] \<and>
   write_on_end stale_state \<noteq> []"
  using sample_end_stale
  by (simp add: stale_state_def recording_state_def)

end
